theory Spec2Isabelle
  imports Complex_Main "HOL-Library.Word"
begin

section \<open>Strings\<close>

text \<open>
  A Python \<open>str\<close> is a sequence of Unicode code points, so a string is a list of
  code points (natural numbers). \<open>py\<close> turns an ASCII literal into such a string.
\<close>

type_synonym pystr = "nat list"

definition py :: "string \<Rightarrow> pystr" where
  "py s = map of_char s"

text \<open>
  \<open>str.isspace\<close> for one code point: the characters \<open>str.strip()\<close> removes when
  it is called without an argument (TAB..CR, FS..US, space, NEL, NBSP, and the Unicode
  space separators and line/paragraph separators).
\<close>

definition isspace :: "nat \<Rightarrow> bool" where
  "isspace c \<longleftrightarrow>
     (9 \<le> c \<and> c \<le> 13) \<or> (28 \<le> c \<and> c \<le> 32) \<or> c = 133 \<or> c = 160 \<or> c = 5760 \<or>
     (8192 \<le> c \<and> c \<le> 8202) \<or> c = 8232 \<or> c = 8233 \<or> c = 8239 \<or> c = 8287 \<or>
     c = 12288"

definition lstrip :: "pystr \<Rightarrow> pystr" where
  "lstrip s = dropWhile isspace s"

definition rstrip :: "pystr \<Rightarrow> pystr" where
  "rstrip s = rev (dropWhile isspace (rev s))"

definition strip :: "pystr \<Rightarrow> pystr" where
  "strip s = rstrip (lstrip s)"

definition startswith :: "pystr \<Rightarrow> pystr \<Rightarrow> bool" where
  "startswith s p \<longleftrightarrow> take (length p) s = p"

text \<open>\<open>str(n)\<close> for a non-negative integer: its decimal digits.\<close>

fun str_nat :: "nat \<Rightarrow> pystr" where
  "str_nat n = (if n < 10 then [48 + n] else str_nat (n div 10) @ [48 + n mod 10])"

declare str_nat.simps [simp del]

section \<open>Exceptions\<close>

text \<open>
  An exception is an instance of (a subclass of) \<open>Exception\<close>; its argument is what
  \<open>str(e)\<close> gives. A function that can raise returns \<open>exn + 'a\<close>, \<open>Inl\<close> the
  exception raised.
\<close>

datatype exn = Exception pystr

fun str_exn :: "exn \<Rightarrow> pystr" where
  "str_exn (Exception msg) = msg"

section \<open>\<open>sanitize_filename\<close> and \<open>read_brands\<close>\<close>

text \<open>
  \<open>SAFE_FILENAME_PATTERN = re.compile(r"[\\/:*?\"<>|]")\<close>: a character class of the nine
  characters backslash, slash, colon, asterisk, question mark, double quote, less-than,
  greater-than and vertical bar.
\<close>

definition SAFE_FILENAME_PATTERN :: "nat \<Rightarrow> bool" where
  "SAFE_FILENAME_PATTERN c \<longleftrightarrow> c \<in> set [92, 47, 58, 42, 63, 34, 60, 62, 124]"

text \<open>\<open>SAFE_FILENAME_PATTERN.sub("_", name).strip()\<close>\<close>

definition sanitize_filename :: "pystr \<Rightarrow> pystr" where
  "sanitize_filename name = strip (map (\<lambda>c. if SAFE_FILENAME_PATTERN c then 95 else c) name)"

text \<open>
  The file is opened in text mode with the default \<open>newline=None\<close>: on reading,
  \<open>\r\n\<close> and a lone \<open>\r\<close> are translated to \<open>\n\<close>, and iterating over the file
  yields the lines, each with its terminating \<open>\n\<close> (the last line may have none).
\<close>

fun universal_newlines :: "pystr \<Rightarrow> pystr" where
  "universal_newlines [] = []"
| "universal_newlines [c] = [if c = 13 then 10 else c]"
| "universal_newlines (c # d # cs) =
     (if c = 13 \<and> d = 10 then 10 # universal_newlines cs
      else (if c = 13 then 10 else c) # universal_newlines (d # cs))"

fun split_lines :: "pystr \<Rightarrow> pystr list" where
  "split_lines [] = []"
| "split_lines (c # cs) =
     (if c = 10 then [10] # split_lines cs
      else (case split_lines cs of [] \<Rightarrow> [[c]] | l # ls \<Rightarrow> (c # l) # ls))"

definition file_lines :: "pystr \<Rightarrow> pystr list" where
  "file_lines content = split_lines (universal_newlines content)"

text \<open>
  \<open>read_brands\<close>: \<open>opened\<close> is what opening and decoding the file gives, the
  exception raised (no such file, undecodable bytes) or the decoded text.
\<close>

definition read_brands :: "exn + pystr \<Rightarrow> exn + pystr list" where
  "read_brands opened =
     (case opened of
        Inl e \<Rightarrow> Inl e
      | Inr f \<Rightarrow>
          Inr [strip line. line \<leftarrow> file_lines f,
                 strip line \<noteq> [] \<and> \<not> startswith (strip line) (py ''#'')])"

text \<open>
  The reader as the specification words it: trim every line, then keep the trimmed lines
  that are non-empty and do not begin with \<open>#\<close>, in their order.
\<close>

definition spec_read_brands :: "pystr \<Rightarrow> pystr list" where
  "spec_read_brands f =
     filter (\<lambda>t. t \<noteq> [] \<and> hd t \<noteq> 35) (map strip (file_lines f))"

section \<open>JSON values and the Python operations on them\<close>

text \<open>
  What \<open>r.json()\<close> returns: \<open>None\<close>, a \<open>bool\<close>, an \<open>int\<close>, a \<open>str\<close>, a
  \<open>list\<close> or a \<open>dict\<close> with string keys (the list of its items, looked up with
  \<open>map_of\<close>). \<open>JNull\<close> is Python's \<open>None\<close>. Numbers with a fraction are not
  modelled. The program is dynamically typed, so an entity id and a logo filename are
  JSON values too: whatever the response holds at that place.
\<close>

datatype json =
    JNull
  | JBool bool
  | JInt int
  | JStr pystr
  | JList "json list"
  | JDict "(pystr \<times> json) list"

text \<open>Truth value testing, as in \<open>if not qid\<close>.\<close>

fun truthy :: "json \<Rightarrow> bool" where
  "truthy JNull = False"
| "truthy (JBool b) = b"
| "truthy (JInt i) = (i \<noteq> 0)"
| "truthy (JStr s) = (s \<noteq> [])"
| "truthy (JList xs) = (xs \<noteq> [])"
| "truthy (JDict kvs) = (kvs \<noteq> [])"

fun type_name :: "json \<Rightarrow> pystr" where
  "type_name JNull = py ''NoneType''"
| "type_name (JBool b) = py ''bool''"
| "type_name (JInt i) = py ''int''"
| "type_name (JStr s) = py ''str''"
| "type_name (JList xs) = py ''list''"
| "type_name (JDict kvs) = py ''dict''"

text \<open>\<open>obj.get(key, default)\<close>: only a \<open>dict\<close> has the method; on anything else the
  attribute lookup raises \<open>AttributeError\<close>.\<close>

definition json_get :: "json \<Rightarrow> pystr \<Rightarrow> json \<Rightarrow> exn + json" where
  "json_get obj key dflt =
     (case obj of
        JDict kvs \<Rightarrow> Inr (case map_of kvs key of Some v \<Rightarrow> v | None \<Rightarrow> dflt)
      | _ \<Rightarrow> Inl (Exception ([39] @ type_name obj @ [39] @ py '' object has no attribute ''
                               @ [39] @ py ''get'' @ [39])))"

fun is_substring :: "pystr \<Rightarrow> pystr \<Rightarrow> bool" where
  "is_substring k [] = (k = [])"
| "is_substring k (c # cs) = (take (length k) (c # cs) = k \<or> is_substring k cs)"

text \<open>\<open>key in obj\<close> for a string \<open>key\<close>: a key of a \<open>dict\<close>, an element of a
  \<open>list\<close>, a substring of a \<open>str\<close>; \<open>TypeError\<close> on \<open>None\<close>, a \<open>bool\<close> or an
  \<open>int\<close>.\<close>

definition json_contains :: "pystr \<Rightarrow> json \<Rightarrow> exn + bool" where
  "json_contains key obj =
     (case obj of
        JDict kvs \<Rightarrow> Inr (map_of kvs key \<noteq> None)
      | JList xs \<Rightarrow> Inr (JStr key \<in> set xs)
      | JStr s \<Rightarrow> Inr (is_substring key s)
      | _ \<Rightarrow> Inl (Exception (py ''argument of type '' @ [39] @ type_name obj @ [39]
                               @ py '' is not iterable'')))"

text \<open>\<open>for entry in obj\<close>: the elements of a \<open>list\<close>, the keys of a \<open>dict\<close>, the
  characters of a \<open>str\<close>; \<open>TypeError\<close> otherwise.\<close>

definition json_iter :: "json \<Rightarrow> exn + json list" where
  "json_iter obj =
     (case obj of
        JList xs \<Rightarrow> Inr xs
      | JDict kvs \<Rightarrow> Inr (map (\<lambda>kv. JStr (fst kv)) kvs)
      | JStr s \<Rightarrow> Inr (map (\<lambda>c. JStr [c]) s)
      | _ \<Rightarrow> Inl (Exception ([39] @ type_name obj @ [39] @ py '' object is not iterable'')))"

text \<open>
  Subscription inside the \<open>try\<close> block of \<open>wikidata_get_logo_filename\<close>, where every
  exception is caught alike: \<open>None\<close> stands for "raised" (a missing key, an index out of
  range, a value that cannot be subscripted that way).
\<close>

definition getitem_key :: "json \<Rightarrow> pystr \<Rightarrow> json option" where
  "getitem_key obj key = (case obj of JDict kvs \<Rightarrow> map_of kvs key | _ \<Rightarrow> None)"

definition getitem_0 :: "json \<Rightarrow> json option" where
  "getitem_0 obj =
     (case obj of
        JList (x # xs) \<Rightarrow> Some x
      | JStr (c # cs) \<Rightarrow> Some (JStr [c])
      | _ \<Rightarrow> None)"

section \<open>The network\<close>

text \<open>
  \<open>SESSION.get(url, params=..., timeout=...)\<close>: a request is its URL, its query
  parameters and its timeout in seconds. The response carries what the program reads of
  it: the status code, the text of the \<open>HTTPError\<close> that \<open>raise_for_status\<close> builds,
  what \<open>r.json()\<close> gives (the parsed body, or the exception of a body that is not JSON)
  and the bytes of \<open>r.content\<close>.
\<close>

record request =
  req_url :: pystr
  req_params :: "(pystr \<times> json) list"
  req_timeout :: nat

record response =
  status_code :: nat
  http_error_msg :: pystr
  body_json :: "exn + json"
  content :: "nat list"

definition raise_for_status :: "response \<Rightarrow> exn + unit" where
  "raise_for_status r =
     (if 400 \<le> status_code r \<and> status_code r < 600 then Inl (Exception (http_error_msg r))
      else Inr ())"

definition WIKIDATA_API :: pystr where
  "WIKIDATA_API = py ''https://www.wikidata.org/w/api.php''"

text \<open>\<open>COMMONS_THUMB.format(filename=quoted, width=w)\<close> and
  \<open>COMMONS_FILEPATH.format(filename=quoted)\<close>.\<close>

definition COMMONS_THUMB :: "pystr \<Rightarrow> nat \<Rightarrow> pystr" where
  "COMMONS_THUMB quoted w =
     py ''https://commons.wikimedia.org/w/thumb.php?f='' @ quoted @ py ''&w='' @ str_nat w"

definition COMMONS_FILEPATH :: "pystr \<Rightarrow> pystr" where
  "COMMONS_FILEPATH quoted =
     py ''https://commons.wikimedia.org/wiki/Special:FilePath/'' @ quoted"

section \<open>Floating-point arithmetic of the image library\<close>

text \<open>
  \<open>ImageOps.contain\<close> computes the scaled size with Python floats (IEEE 754 binary64).
  A float is modelled by a pair \<open>(m, e)\<close> of integers standing for \<open>m * 2^e\<close>; every
  operation rounds its exact result to 53 significant bits, to nearest, ties to even, as
  the hardware does. Overflow and subnormal numbers do not arise for quotients of image
  dimensions and are not modelled.
\<close>

type_synonym pyfloat = "int \<times> int"

text \<open>The quotient \<open>p / q\<close> (for \<open>q > 0\<close>) rounded to the nearest integer, a tie to
  the even one.\<close>

definition round_half_even :: "int \<Rightarrow> int \<Rightarrow> int" where
  "round_half_even p q =
     (let d = p div q; r = p mod q
      in if 2 * r < q then d else if q < 2 * r then d + 1 else if even d then d else d + 1)"

fun bit_length :: "nat \<Rightarrow> nat" where
  "bit_length n = (if n = 0 then 0 else Suc (bit_length (n div 2)))"

declare bit_length.simps [simp del]

text \<open>\<open>scaled a b k\<close> is a fraction \<open>(p, q)\<close> of integers equal to \<open>a / (b * 2^k)\<close>.\<close>

definition scaled :: "nat \<Rightarrow> nat \<Rightarrow> int \<Rightarrow> int \<times> int" where
  "scaled a b k = (int a * 2 ^ nat (- k), int b * 2 ^ nat k)"

text \<open>
  \<open>a / b\<close> for two integers (\<open>b > 0\<close>): Python's true division, the exact quotient
  correctly rounded. \<open>float_exponent a b\<close> is the exponent \<open>L\<close> with
  \<open>2^L \<le> a / b < 2^(L+1)\<close>.
\<close>

definition float_exponent :: "nat \<Rightarrow> nat \<Rightarrow> int" where
  "float_exponent a b =
     (let d = int (bit_length a) - int (bit_length b)
      in if snd (scaled a b d) \<le> fst (scaled a b d) then d else d - 1)"

definition fdiv :: "nat \<Rightarrow> nat \<Rightarrow> pyfloat" where
  "fdiv a b =
     (if a = 0 then (0, 0)
      else let e = float_exponent a b - 52
           in (round_half_even (fst (scaled a b e)) (snd (scaled a b e)), e))"

text \<open>A float times a non-negative integer: the exact product, rounded to 53 bits.\<close>

definition fmul :: "pyfloat \<Rightarrow> nat \<Rightarrow> pyfloat" where
  "fmul f n =
     (let m = fst f * int n; k = int (bit_length (nat \<bar>m\<bar>)) - 53
      in if k \<le> 0 then (m, snd f) else (round_half_even m (2 ^ nat k), snd f + k))"

text \<open>\<open>round(f)\<close>: the nearest integer, a tie to the even one.\<close>

definition py_round :: "pyfloat \<Rightarrow> int" where
  "py_round f =
     (if 0 \<le> snd f then fst f * 2 ^ nat (snd f) else round_half_even (fst f) (2 ^ nat (- snd f)))"

text \<open>Comparison of two floats, after bringing them to a common exponent.\<close>

definition float_less :: "pyfloat \<Rightarrow> pyfloat \<Rightarrow> bool" where
  "float_less f g =
     (let e = min (snd f) (snd g)
      in fst f * 2 ^ nat (snd f - e) < fst g * 2 ^ nat (snd g - e))"

definition float_eq :: "pyfloat \<Rightarrow> pyfloat \<Rightarrow> bool" where
  "float_eq f g =
     (let e = min (snd f) (snd g)
      in fst f * 2 ^ nat (snd f - e) = fst g * 2 ^ nat (snd g - e))"


section \<open>Images\<close>

text \<open>
  An image in mode RGBA: its size and its pixels, four 8-bit channels each (red, green,
  blue, alpha), \<open>pixel im x y\<close> the pixel of column \<open>x\<close> and row \<open>y\<close>.
  \<open>Image.new\<close>, \<open>Image.resize\<close>, \<open>ImageOps.contain\<close> and \<open>Image.paste\<close> are
  functions of the image library (Pillow), which the script imports; they are modelled
  from the library's source and documentation.
\<close>

type_synonym rgba = "8 word \<times> 8 word \<times> 8 word \<times> 8 word"

record image =
  width :: nat
  height :: nat
  pixel :: "nat \<Rightarrow> nat \<Rightarrow> rgba"

definition alpha :: "rgba \<Rightarrow> 8 word" where
  "alpha p = snd (snd (snd p))"

text \<open>\<open>Image.new("RGBA", size, color)\<close>\<close>

definition Image_new :: "nat \<times> nat \<Rightarrow> rgba \<Rightarrow> image" where
  "Image_new sz color = \<lparr>width = fst sz, height = snd sz, pixel = (\<lambda>x y. color)\<rparr>"

text \<open>
  \<open>Image.resize(size, resample=LANCZOS)\<close>: a copy when the size is the image's own; a
  \<open>ValueError\<close> when a side of the new size is below 1; otherwise an image of the new
  size, whose pixel values are the resampling filter's (\<open>lanczos\<close>, a parameter of the
  model).
\<close>

definition resize ::
  "(image \<Rightarrow> nat \<times> nat \<Rightarrow> nat \<Rightarrow> nat \<Rightarrow> rgba) \<Rightarrow> image \<Rightarrow> int \<times> int \<Rightarrow> exn + image" where
  "resize lanczos im sz =
     (if sz = (int (width im), int (height im)) then Inr im
      else if fst sz < 1 \<or> snd sz < 1
        then Inl (Exception (py ''height and width must be > 0''))
      else Inr \<lparr>width = nat (fst sz), height = nat (snd sz),
                pixel = lanczos im (nat (fst sz), nat (snd sz))\<rparr>)"

text \<open>
  \<open>ImageOps.contain(image, size, method)\<close> of the image library:
  \<^verbatim>\<open>
    im_ratio = image.width / image.height
    dest_ratio = size[0] / size[1]
    if im_ratio != dest_ratio:
        if im_ratio > dest_ratio:
            new_height = round(image.height / image.width * size[0])
            if new_height != size[1]:
                size = (size[0], new_height)
        else:
            new_width = round(image.width / image.height * size[1])
            if new_width != size[0]:
                size = (new_width, size[1])
    return image.resize(size, resample=method)
  \<close>
  A division by zero raises \<open>ZeroDivisionError\<close>. \<open>contain_size\<close> is the size
  computed for an image of size \<open>dims\<close>, \<open>contain\<close> the resize to it.
\<close>

definition ZeroDivisionError :: exn where
  "ZeroDivisionError = Exception (py ''division by zero'')"

definition contain_size :: "nat \<times> nat \<Rightarrow> nat \<times> nat \<Rightarrow> exn + int \<times> int" where
  "contain_size dims sz =
     (if snd dims = 0 \<or> snd sz = 0 then Inl ZeroDivisionError
      else let im_ratio = fdiv (fst dims) (snd dims);
               dest_ratio = fdiv (fst sz) (snd sz)
           in if \<not> float_eq im_ratio dest_ratio then
                if float_less dest_ratio im_ratio then
                  if fst dims = 0 then Inl ZeroDivisionError
                  else let new_height = py_round (fmul (fdiv (snd dims) (fst dims)) (fst sz))
                       in Inr (int (fst sz), new_height)
                else
                  let new_width = py_round (fmul (fdiv (fst dims) (snd dims)) (snd sz))
                  in Inr (new_width, int (snd sz))
              else Inr (int (fst sz), int (snd sz)))"

definition contain ::
  "(image \<Rightarrow> nat \<times> nat \<Rightarrow> nat \<Rightarrow> nat \<Rightarrow> rgba) \<Rightarrow> image \<Rightarrow> nat \<times> nat \<Rightarrow> exn + image" where
  "contain lanczos im sz =
     (case contain_size (width im, height im) sz of
        Inl e \<Rightarrow> Inl e
      | Inr sz' \<Rightarrow> resize lanczos im sz')"

text \<open>
  \<open>canvas.paste(im, box, mask)\<close> with an RGBA mask: inside the box, every channel of
  the canvas is blended with the channel of \<open>im\<close> under the alpha \<open>a\<close> of the mask's
  pixel, \<open>(canvas * (255 - a) + im * a) / 255\<close> rounded as the library's \<open>DIV255\<close>
  does; outside the box the canvas is unchanged. Versions of the library differ on the
  colour channels of a canvas that has an alpha channel: the current ones copy the colour
  of \<open>im\<close> wherever the mask is not 0 (\<open>copies\<close> is true), older ones blend the
  colours as they blend the alpha channel.
\<close>

definition div255 :: "nat \<Rightarrow> nat" where
  "div255 a = (let tmp = a + 128 in (tmp div 256 + tmp) div 256)"

definition blend :: "8 word \<Rightarrow> 8 word \<Rightarrow> 8 word \<Rightarrow> 8 word" where
  "blend msk in1 in2 = of_nat (div255 (unat in1 * (255 - unat msk) + unat in2 * unat msk))"

definition blend_pixel :: "bool \<Rightarrow> 8 word \<Rightarrow> rgba \<Rightarrow> rgba \<Rightarrow> rgba" where
  "blend_pixel copies msk p q =
     (let channel_mask = (if copies \<and> msk \<noteq> 0 then 255 else msk)
      in case p of (r1, g1, b1, a1) \<Rightarrow> case q of (r2, g2, b2, a2) \<Rightarrow>
           (blend channel_mask r1 r2, blend channel_mask g1 g2, blend channel_mask b1 b2,
            blend msk a1 a2))"

definition in_box :: "int \<times> int \<Rightarrow> image \<Rightarrow> nat \<Rightarrow> nat \<Rightarrow> bool" where
  "in_box box im x y \<longleftrightarrow>
     fst box \<le> int x \<and> int x < fst box + int (width im) \<and>
     snd box \<le> int y \<and> int y < snd box + int (height im)"

definition paste :: "bool \<Rightarrow> image \<Rightarrow> image \<Rightarrow> int \<times> int \<Rightarrow> image \<Rightarrow> image" where
  "paste copies canvas im box msk =
     canvas\<lparr>pixel := (\<lambda>x y.
        if in_box box im x y then
          (let sx = nat (int x - fst box); sy = nat (int y - snd box)
           in blend_pixel copies (alpha (pixel msk sx sy)) (pixel canvas x y) (pixel im sx sy))
        else pixel canvas x y)\<rparr>"

section \<open>The world the script runs in\<close>

text \<open>
  Every call that leaves the program is recorded, in order, in a trace of events: an HTTP
  GET, the decoding of downloaded bytes by the image library, the writing of an output
  file (its name inside the output directory, and the image).
\<close>

datatype event =
    Get request
  | Open "nat list"
  | Save pystr image

text \<open>
  What the program does not decide is a parameter of the model:
  \<^item> \<open>session_get\<close>: what a GET returns, a response or the exception raised (no
    connection, a timeout); it may depend on everything that happened before;
  \<^item> \<open>url_quote\<close>: \<open>urllib.parse.quote\<close> on a string (it raises on a string that has
    no UTF-8 encoding);
  \<^item> \<open>image_open\<close>: \<open>Image.open(io.BytesIO(b)).convert("RGBA")\<close>;
  \<^item> \<open>LANCZOS\<close>: the pixel values the resampling filter computes;
  \<^item> \<open>paste_copies_colour\<close>: which of the two ways of \<open>paste\<close> the installed library
    has;
  \<^item> \<open>image_save\<close>: whether writing the PNG file succeeds;
  \<^item> \<open>str_json\<close>: \<open>str(v)\<close> for a value that is not a string;
  \<^item> \<open>output_mkdir\<close>: whether creating the output directory succeeds;
  \<^item> \<open>open_brands\<close>: the decoded text of the brands file, or the exception of opening
    or decoding it.
\<close>

record env =
  session_get :: "event list \<Rightarrow> request \<Rightarrow> exn + response"
  url_quote :: "pystr \<Rightarrow> exn + pystr"
  image_open :: "nat list \<Rightarrow> exn + image"
  LANCZOS :: "image \<Rightarrow> nat \<times> nat \<Rightarrow> nat \<Rightarrow> nat \<Rightarrow> rgba"
  paste_copies_colour :: bool
  image_save :: "event list \<Rightarrow> pystr \<Rightarrow> image \<Rightarrow> exn + unit"
  str_json :: "json \<Rightarrow> pystr"
  output_mkdir :: "exn + unit"
  open_brands :: "exn + pystr"

text \<open>\<open>SESSION.get\<close>: the request is recorded, the world answers.\<close>

definition get :: "env \<Rightarrow> event list \<Rightarrow> request \<Rightarrow> (exn + response) \<times> event list" where
  "get env tr req = (session_get env tr req, tr @ [Get req])"

text \<open>\<open>str(v)\<close>, as an f-string formats a value.\<close>

definition py_str :: "env \<Rightarrow> json \<Rightarrow> pystr" where
  "py_str env v = (case v of JStr s \<Rightarrow> s | _ \<Rightarrow> str_json env v)"

text \<open>\<open>urllib.parse.quote(v)\<close>: a value that is neither a string nor bytes raises
  \<open>TypeError\<close>.\<close>

definition py_quote :: "env \<Rightarrow> json \<Rightarrow> exn + pystr" where
  "py_quote env v =
     (case v of
        JStr s \<Rightarrow> url_quote env s
      | _ \<Rightarrow> Inl (Exception (py ''quote_from_bytes() expected bytes'')))"

section \<open>The knowledge-base queries\<close>

definition claims_request :: "json \<Rightarrow> request" where
  "claims_request qid =
     \<lparr>req_url = WIKIDATA_API,
      req_params = [(py ''action'', JStr (py ''wbgetclaims'')), (py ''entity'', qid),
                    (py ''property'', JStr (py ''P154'')), (py ''format'', JStr (py ''json''))],
      req_timeout = 20\<rparr>"

text \<open>The \<open>try\<close> block: \<open>claims["P154"][0]["mainsnak"]["datavalue"]["value"]\<close>.\<close>

definition logo_value :: "json \<Rightarrow> json option" where
  "logo_value claims =
     Option.bind (getitem_key claims (py ''P154'')) (\<lambda>c.
     Option.bind (getitem_0 c) (\<lambda>c0.
     Option.bind (getitem_key c0 (py ''mainsnak'')) (\<lambda>mainsnak.
     Option.bind (getitem_key mainsnak (py ''datavalue'')) (\<lambda>datavalue.
     getitem_key datavalue (py ''value'')))))"

definition wikidata_get_logo_filename ::
  "env \<Rightarrow> event list \<Rightarrow> json \<Rightarrow> (exn + json) \<times> event list" where
  "wikidata_get_logo_filename env tr qid =
     (case get env tr (claims_request qid) of
        (Inl e, tr') \<Rightarrow> (Inl e, tr')
      | (Inr r, tr') \<Rightarrow>
          (case raise_for_status r of
             Inl e \<Rightarrow> (Inl e, tr')
           | Inr u \<Rightarrow>
               (case body_json r of
                  Inl e \<Rightarrow> (Inl e, tr')
                | Inr j \<Rightarrow>
                    (case json_get j (py ''claims'') (JDict []) of
                       Inl e \<Rightarrow> (Inl e, tr')
                     | Inr claims \<Rightarrow>
                         (case json_contains (py ''P154'') claims of
                            Inl e \<Rightarrow> (Inl e, tr')
                          | Inr present \<Rightarrow>
                              if \<not> present then (Inr JNull, tr')
                              else (case logo_value claims of
                                      Some filename \<Rightarrow> (Inr filename, tr')
                                    | None \<Rightarrow> (Inr JNull, tr')))))))"

definition search_request :: "pystr \<Rightarrow> pystr \<Rightarrow> int \<Rightarrow> request" where
  "search_request name language limit =
     \<lparr>req_url = WIKIDATA_API,
      req_params = [(py ''action'', JStr (py ''wbsearchentities'')), (py ''search'', JStr name),
                    (py ''language'', JStr language), (py ''type'', JStr (py ''item'')),
                    (py ''limit'', JInt limit), (py ''format'', JStr (py ''json''))],
      req_timeout = 20\<rparr>"

text \<open>\<open>[entry.get("id") for entry in entries if entry.get("id")]\<close>: the first entry
  that is not a \<open>dict\<close> raises.\<close>

fun entry_ids :: "json list \<Rightarrow> exn + json list" where
  "entry_ids [] = Inr []"
| "entry_ids (entry # entries) =
     (case json_get entry (py ''id'') JNull of
        Inl e \<Rightarrow> Inl e
      | Inr v \<Rightarrow>
          (case entry_ids entries of
             Inl e \<Rightarrow> Inl e
           | Inr ids \<Rightarrow> Inr (if truthy v then v # ids else ids)))"

definition wikidata_search_candidates ::
  "env \<Rightarrow> event list \<Rightarrow> pystr \<Rightarrow> pystr \<Rightarrow> int \<Rightarrow> (exn + json list) \<times> event list" where
  "wikidata_search_candidates env tr name language limit =
     (case get env tr (search_request name language limit) of
        (Inl e, tr') \<Rightarrow> (Inl e, tr')
      | (Inr r, tr') \<Rightarrow>
          (case raise_for_status r of
             Inl e \<Rightarrow> (Inl e, tr')
           | Inr u \<Rightarrow>
               (case body_json r of
                  Inl e \<Rightarrow> (Inl e, tr')
                | Inr j \<Rightarrow>
                    (case json_get j (py ''search'') (JList []) of
                       Inl e \<Rightarrow> (Inl e, tr')
                     | Inr found \<Rightarrow>
                         (case json_iter found of
                            Inl e \<Rightarrow> (Inl e, tr')
                          | Inr entries \<Rightarrow> (entry_ids entries, tr'))))))"

text \<open>
  \<open>wikidata_search_entity\<close>. The inner loop (\<open>for qid in candidates\<close>) returns the
  candidate it stops at, or \<open>None\<close> when it runs to the end; the outer loop goes
  through the languages.
\<close>

fun first_with_logo ::
  "env \<Rightarrow> event list \<Rightarrow> json list \<Rightarrow> (exn + json option) \<times> event list" where
  "first_with_logo env tr [] = (Inr None, tr)"
| "first_with_logo env tr (qid # qids) =
     (case wikidata_get_logo_filename env tr qid of
        (Inl e, tr') \<Rightarrow> (Inl e, tr')
      | (Inr filename, tr') \<Rightarrow>
          if truthy filename then (Inr (Some qid), tr') else first_with_logo env tr' qids)"

fun search_languages ::
  "env \<Rightarrow> event list \<Rightarrow> pystr \<Rightarrow> pystr list \<Rightarrow> (exn + json) \<times> event list" where
  "search_languages env tr name [] = (Inr JNull, tr)"
| "search_languages env tr name (lang # langs) =
     (case wikidata_search_candidates env tr name lang 15 of
        (Inl e, tr1) \<Rightarrow> (Inl e, tr1)
      | (Inr candidates, tr1) \<Rightarrow>
          (case first_with_logo env tr1 candidates of
             (Inl e, tr2) \<Rightarrow> (Inl e, tr2)
           | (Inr (Some qid), tr2) \<Rightarrow> (Inr qid, tr2)
           | (Inr None, tr2) \<Rightarrow>
               (case candidates of
                  c # cs \<Rightarrow> (Inr c, tr2)
                | [] \<Rightarrow> search_languages env tr2 name langs)))"

definition wikidata_search_entity ::
  "env \<Rightarrow> event list \<Rightarrow> pystr \<Rightarrow> (exn + json) \<times> event list" where
  "wikidata_search_entity env tr name = search_languages env tr name [py ''tr'', py ''en'']"

section \<open>The asset downloader\<close>

text \<open>One attempt: \<open>r = SESSION.get(url, timeout=30); r.raise_for_status();
  return r.content\<close> inside \<open>try ... except Exception\<close>; \<open>None\<close> when it raised.\<close>

definition attempt :: "env \<Rightarrow> event list \<Rightarrow> pystr \<Rightarrow> nat list option \<times> event list" where
  "attempt env tr u =
     (case get env tr \<lparr>req_url = u, req_params = [], req_timeout = 30\<rparr> of
        (Inl e, tr') \<Rightarrow> (None, tr')
      | (Inr r, tr') \<Rightarrow>
          (case raise_for_status r of
             Inl e \<Rightarrow> (None, tr')
           | Inr u \<Rightarrow> (Some (content r), tr')))"

definition download_commons_raster ::
  "env \<Rightarrow> event list \<Rightarrow> json \<Rightarrow> (exn + nat list option) \<times> event list" where
  "download_commons_raster env tr filename =
     (case py_quote env filename of
        Inl e \<Rightarrow> (Inl e, tr)
      | Inr quoted \<Rightarrow>
          (case attempt env tr (COMMONS_THUMB quoted 1024) of
             (Some bytes, tr1) \<Rightarrow> (Inr (Some bytes), tr1)
           | (None, tr1) \<Rightarrow>
               (case attempt env tr1 (COMMONS_FILEPATH quoted) of
                  (Some bytes, tr2) \<Rightarrow> (Inr (Some bytes), tr2)
                | (None, tr2) \<Rightarrow> (Inr None, tr2))))"

section \<open>The image normalizer\<close>

definition to_png_128 ::
  "env \<Rightarrow> event list \<Rightarrow> nat list \<Rightarrow> (exn + image option) \<times> event list" where
  "to_png_128 env tr img_bytes =
     (case image_open env img_bytes of
        Inl e \<Rightarrow> (Inr None, tr @ [Open img_bytes])
      | Inr img \<Rightarrow>
          (let canvas_size = (128, 128);
               padding = 8;
               max_w = fst canvas_size - 2 * padding;
               max_h = snd canvas_size - 2 * padding
           in case contain (LANCZOS env) img (max_w, max_h) of
                Inl e \<Rightarrow> (Inl e, tr @ [Open img_bytes])
              | Inr img' \<Rightarrow>
                  (let canvas = Image_new canvas_size (0, 0, 0, 0);
                       offset = ((int (fst canvas_size) - int (width img')) div 2,
                                 (int (snd canvas_size) - int (height img')) div 2)
                   in (Inr (Some (paste (paste_copies_colour env) canvas img' offset img')),
                       tr @ [Open img_bytes]))))"

section \<open>The pipeline driver\<close>

type_synonym result = "pystr \<times> bool \<times> pystr"

text \<open>The body of the \<open>try\<close> block of \<open>process_brand\<close>.\<close>

definition process_brand_body ::
  "env \<Rightarrow> event list \<Rightarrow> pystr \<Rightarrow> (exn + result) \<times> event list" where
  "process_brand_body env tr brand =
     (case wikidata_search_entity env tr brand of
        (Inl e, tr1) \<Rightarrow> (Inl e, tr1)
      | (Inr qid, tr1) \<Rightarrow>
          if \<not> truthy qid then (Inr (brand, False, py ''No Wikidata item found''), tr1)
          else
            (case wikidata_get_logo_filename env tr1 qid of
               (Inl e, tr2) \<Rightarrow> (Inl e, tr2)
             | (Inr filename, tr2) \<Rightarrow>
                 if \<not> truthy filename
                 then (Inr (brand, False, py ''No logo (P154) for '' @ py_str env qid), tr2)
                 else
                   (case download_commons_raster env tr2 filename of
                      (Inl e, tr3) \<Rightarrow> (Inl e, tr3)
                    | (Inr None, tr3) \<Rightarrow> (Inr (brand, False, py ''Download failed''), tr3)
                    | (Inr (Some img_bytes), tr3) \<Rightarrow>
                        if img_bytes = [] then (Inr (brand, False, py ''Download failed''), tr3)
                        else
                          (case to_png_128 env tr3 img_bytes of
                             (Inl e, tr4) \<Rightarrow> (Inl e, tr4)
                           | (Inr None, tr4) \<Rightarrow>
                               (Inr (brand, False, py ''Conversion failed''), tr4)
                           | (Inr (Some img), tr4) \<Rightarrow>
                               (let out_name = sanitize_filename brand @ py ''.png''
                                in case image_save env tr4 out_name img of
                                     Inl e \<Rightarrow> (Inl e, tr4 @ [Save out_name img])
                                   | Inr u \<Rightarrow>
                                       (Inr (brand, True, py ''OK''),
                                        tr4 @ [Save out_name img]))))))"

text \<open>\<open>process_brand\<close>: \<open>except Exception as e: return brand, False, f"Error: {e}"\<close>.\<close>

definition process_brand :: "env \<Rightarrow> event list \<Rightarrow> pystr \<Rightarrow> result \<times> event list" where
  "process_brand env tr brand =
     (case process_brand_body env tr brand of
        (Inl e, tr') \<Rightarrow> ((brand, False, py ''Error: '' @ str_exn e), tr')
      | (Inr r, tr') \<Rightarrow> (r, tr'))"

text \<open>\<open>print(f"[{status}] {b}: {msg}")\<close>\<close>

definition status_line :: "result \<Rightarrow> pystr" where
  "status_line r =
     (case r of (b, success, msg) \<Rightarrow>
        py ''['' @ (if success then py ''SUCCESS'' else py ''FAIL'') @ py ''] '' @ b
          @ py '': '' @ msg)"

definition summary_line :: "nat \<Rightarrow> nat \<Rightarrow> pystr" where
  "summary_line ok fail =
     py ''Done. Success: '' @ str_nat ok @ py '', Fail: '' @ str_nat fail"

text \<open>
  The loop of \<open>main\<close>, with the counters \<open>ok\<close> and \<open>fail\<close> and the lines printed so
  far; \<open>main\<close> gives the exit status (or the exception that ends the run), the lines
  printed and the trace.
\<close>

fun main_loop ::
  "env \<Rightarrow> event list \<Rightarrow> pystr list \<Rightarrow> nat \<Rightarrow> nat \<Rightarrow> pystr list
     \<Rightarrow> nat \<times> nat \<times> pystr list \<times> event list" where
  "main_loop env tr [] ok fail out = (ok, fail, out, tr)"
| "main_loop env tr (brand # brands) ok fail out =
     (case process_brand env tr brand of
        ((b, success, msg), tr') \<Rightarrow>
          if success
          then main_loop env tr' brands (ok + 1) fail (out @ [status_line (b, success, msg)])
          else main_loop env tr' brands ok (fail + 1) (out @ [status_line (b, success, msg)]))"

definition main :: "env \<Rightarrow> event list \<Rightarrow> (exn + int) \<times> pystr list \<times> event list" where
  "main env tr =
     (case output_mkdir env of
        Inl e \<Rightarrow> (Inl e, [], tr)
      | Inr u \<Rightarrow>
          (case read_brands (open_brands env) of
             Inl e \<Rightarrow> (Inl e, [], tr)
           | Inr brands \<Rightarrow>
               (case main_loop env tr brands 0 0 [] of
                  (ok, fail, out, tr') \<Rightarrow>
                    (Inr (if ok > 0 then 0 else 1), out @ [summary_line ok fail], tr'))))"

section \<open>Observations on a run\<close>

text \<open>The requests sent, the byte strings handed to the image decoder and the names of
  the files written, as a trace records them.\<close>

definition gets :: "event list \<Rightarrow> request list" where
  "gets tr = concat (map (\<lambda>ev. case ev of Get r \<Rightarrow> [r] | _ \<Rightarrow> []) tr)"

definition opens :: "event list \<Rightarrow> nat list list" where
  "opens tr = concat (map (\<lambda>ev. case ev of Open b \<Rightarrow> [b] | _ \<Rightarrow> []) tr)"

definition saved_files :: "event list \<Rightarrow> pystr list" where
  "saved_files tr = concat (map (\<lambda>ev. case ev of Save n img \<Rightarrow> [n] | _ \<Rightarrow> []) tr)"

text \<open>A GET succeeds when it returns a response whose status is not an error status:
  neither the call nor \<open>raise_for_status\<close> raises.\<close>

definition succeeds :: "exn + response \<Rightarrow> bool" where
  "succeeds outcome =
     (case outcome of Inl e \<Rightarrow> False | Inr r \<Rightarrow> \<not> (400 \<le> status_code r \<and> status_code r < 600))"

definition media_request :: "pystr \<Rightarrow> request" where
  "media_request u = \<lparr>req_url = u, req_params = [], req_timeout = 30\<rparr>"

text \<open>What the logo-attribute fetch for \<open>qid\<close> gives when it is made after \<open>tr\<close>: a
  filename (a true value), nothing (it returns a false value), or an exception.\<close>

definition has_logo :: "env \<Rightarrow> event list \<Rightarrow> json \<Rightarrow> bool" where
  "has_logo env tr qid =
     (case fst (wikidata_get_logo_filename env tr qid) of Inl e \<Rightarrow> False | Inr f \<Rightarrow> truthy f)"

definition no_logo :: "env \<Rightarrow> event list \<Rightarrow> json \<Rightarrow> bool" where
  "no_logo env tr qid =
     (case fst (wikidata_get_logo_filename env tr qid) of Inl e \<Rightarrow> False | Inr f \<Rightarrow> \<not> truthy f)"

text \<open>The trace after the logo-attribute fetches for \<open>qids\<close>, made in order after
  \<open>tr\<close>.\<close>

definition fetched :: "event list \<Rightarrow> json list \<Rightarrow> event list" where
  "fetched tr qids = tr @ map (\<lambda>qid. Get (claims_request qid)) qids"

text \<open>The results of the brands of a run, each brand processed after the ones before
  it.\<close>

fun results :: "env \<Rightarrow> event list \<Rightarrow> pystr list \<Rightarrow> result list" where
  "results env tr [] = []"
| "results env tr (brand # brands) =
     (case process_brand env tr brand of (r, tr') \<Rightarrow> r # results env tr' brands)"

fun final_trace :: "env \<Rightarrow> event list \<Rightarrow> pystr list \<Rightarrow> event list" where
  "final_trace env tr [] = tr"
| "final_trace env tr (brand # brands) =
     (case process_brand env tr brand of (r, tr') \<Rightarrow> final_trace env tr' brands)"

definition succeeded :: "result \<Rightarrow> bool" where
  "succeeded r = fst (snd r)"

text \<open>\<open>only_gets tr tr'\<close>: the trace \<open>tr'\<close> extends \<open>tr\<close> by HTTP requests only;
  \<open>only_queries tr tr'\<close>: by requests to the knowledge base only (none to the media
  repository, no decoding, no file).\<close>

fun is_get :: "event \<Rightarrow> bool" where
  "is_get (Get r) = True"
| "is_get ev = False"

fun is_query :: "event \<Rightarrow> bool" where
  "is_query (Get r) = (req_url r = WIKIDATA_API)"
| "is_query ev = False"

definition only_gets :: "event list \<Rightarrow> event list \<Rightarrow> bool" where
  "only_gets tr tr' \<longleftrightarrow> take (length tr) tr' = tr \<and> list_all is_get (drop (length tr) tr')"

definition only_queries :: "event list \<Rightarrow> event list \<Rightarrow> bool" where
  "only_queries tr tr' \<longleftrightarrow> take (length tr) tr' = tr \<and> list_all is_query (drop (length tr) tr')"

section \<open>A sample world\<close>

text \<open>
  A world to run the model in: the network answers from a table of routes (any other
  request fails to connect), \<open>quote\<close> percent-encodes the UTF-8 bytes of every
  character but letters, digits and \<open>_.-~/\<close>, bytes that start with the PNG signature
  decode to a uniformly red opaque image of the given size, resampling a uniform image
  gives a uniform image, and writing files succeeds.
\<close>

definition table_get :: "(request \<times> (exn + response)) list \<Rightarrow> request \<Rightarrow> exn + response" where
  "table_get routes req =
     (case map_of routes req of
        Some outcome \<Rightarrow> outcome
      | None \<Rightarrow> Inl (Exception (py ''Failed to establish a new connection'')))"

definition ok_json :: "json \<Rightarrow> response" where
  "ok_json j = \<lparr>status_code = 200, http_error_msg = [], body_json = Inr j, content = []\<rparr>"

definition ok_bytes :: "nat list \<Rightarrow> response" where
  "ok_bytes b =
     \<lparr>status_code = 200, http_error_msg = [],
      body_json = Inl (Exception (py ''Expecting value: line 1 column 1 (char 0)'')),
      content = b\<rparr>"

definition not_found :: response where
  "not_found =
     \<lparr>status_code = 404, http_error_msg = py ''404 Client Error: Not Found'',
      body_json = Inl (Exception (py ''Expecting value: line 1 column 1 (char 0)'')),
      content = []\<rparr>"

definition hex_digit :: "nat \<Rightarrow> nat" where
  "hex_digit n = (if n < 10 then 48 + n else 55 + n)"

definition utf8 :: "nat \<Rightarrow> nat list option" where
  "utf8 c =
     (if c < 128 then Some [c]
      else if c < 2048 then Some [192 + c div 64, 128 + c mod 64]
      else if 55296 \<le> c \<and> c < 57344 then None
      else if c < 65536 then Some [224 + c div 4096, 128 + c div 64 mod 64, 128 + c mod 64]
      else if c < 1114112
        then Some [240 + c div 262144, 128 + c div 4096 mod 64, 128 + c div 64 mod 64,
                   128 + c mod 64]
      else None)"

definition unreserved :: "nat \<Rightarrow> bool" where
  "unreserved c \<longleftrightarrow>
     (65 \<le> c \<and> c \<le> 90) \<or> (97 \<le> c \<and> c \<le> 122) \<or> (48 \<le> c \<and> c \<le> 57) \<or>
     c \<in> set [95, 46, 45, 126, 47]"

fun sample_quote :: "pystr \<Rightarrow> exn + pystr" where
  "sample_quote [] = Inr []"
| "sample_quote (c # cs) =
     (case utf8 c of
        None \<Rightarrow> Inl (Exception (py ''surrogates not allowed''))
      | Some bs \<Rightarrow>
          (case sample_quote cs of
             Inl e \<Rightarrow> Inl e
           | Inr q \<Rightarrow>
               Inr ((if unreserved c then [c]
                     else concat (map (\<lambda>b. [37, hex_digit (b div 16), hex_digit (b mod 16)]) bs))
                    @ q)))"

definition red :: rgba where
  "red = (255, 0, 0, 255)"

definition sample_open :: "nat \<times> nat \<Rightarrow> nat list \<Rightarrow> exn + image" where
  "sample_open dims b =
     (if take 4 b = [137, 80, 78, 71] then Inr (Image_new dims red)
      else Inl (Exception (py ''cannot identify image file'')))"

definition sample_env :: "(request \<times> (exn + response)) list \<Rightarrow> nat \<times> nat \<Rightarrow> pystr \<Rightarrow> env" where
  "sample_env routes dims brands_text =
     \<lparr>session_get = (\<lambda>tr. table_get routes),
      url_quote = sample_quote,
      image_open = sample_open dims,
      LANCZOS = (\<lambda>im sz x y. pixel im 0 0),
      paste_copies_colour = True,
      image_save = (\<lambda>tr name img. Inr ()),
      str_json = (\<lambda>v. py ''...''),
      output_mkdir = Inr (),
      open_brands = Inr brands_text\<rparr>"

text \<open>The answers of the knowledge base and of the media repository, as routes.\<close>

definition search_route :: "pystr \<Rightarrow> pystr \<Rightarrow> pystr list \<Rightarrow> request \<times> (exn + response)" where
  "search_route name language qids =
     (search_request name language 15,
      Inr (ok_json (JDict [(py ''search'', JList (map (\<lambda>q. JDict [(py ''id'', JStr q)]) qids))])))"

definition logo_route :: "pystr \<Rightarrow> pystr \<Rightarrow> request \<times> (exn + response)" where
  "logo_route qid filename =
     (claims_request (JStr qid),
      Inr (ok_json (JDict [(py ''claims'', JDict [(py ''P154'',
        JList [JDict [(py ''mainsnak'',
          JDict [(py ''datavalue'', JDict [(py ''value'', JStr filename)])])]])])])))"

definition no_logo_route :: "pystr \<Rightarrow> request \<times> (exn + response)" where
  "no_logo_route qid = (claims_request (JStr qid), Inr (ok_json (JDict [(py ''claims'', JDict [])])))"

definition png_bytes :: "nat list" where
  "png_bytes = [137, 80, 78, 71, 13, 10, 26, 10]"

text \<open>Sample worlds. In \<open>acme_world\<close> the brand \<open>Acme Corp\<close> resolves to \<open>Q1\<close>,
  whose logo \<open>Acme_logo.svg\<close> downloads from the thumbnail endpoint and decodes to an
  image of 200 by 100 pixels; the brands file holds a comment line and the brand.\<close>

definition acme_routes :: "(request \<times> (exn + response)) list" where
  "acme_routes =
     [search_route (py ''Acme Corp'') (py ''tr'') [py ''Q1''],
      logo_route (py ''Q1'') (py ''Acme_logo.svg''),
      (media_request (COMMONS_THUMB (py ''Acme_logo.svg'') 1024), Inr (ok_bytes png_bytes))]"

definition acme_world :: env where
  "acme_world = sample_env acme_routes (200, 100) (py ''# comment'' @ [10] @ py ''Acme Corp'' @ [10])"

text \<open>\<open>unknown_world\<close>: the knowledge base knows no entity in either language.\<close>

definition unknown_world :: env where
  "unknown_world =
     sample_env [search_route (py ''Unknown Brand X'') (py ''tr'') [],
                 search_route (py ''Unknown Brand X'') (py ''en'') []]
       (1, 1) (py ''Unknown Brand X'')"

text \<open>\<open>no_logo_world\<close>: the entity found has no logo attribute.\<close>

definition no_logo_world :: env where
  "no_logo_world =
     sample_env [search_route (py ''Acme Corp'') (py ''tr'') [py ''Q1''], no_logo_route (py ''Q1'')]
       (1, 1) (py ''Acme Corp'')"

text \<open>\<open>fallback_world\<close>: the thumbnail endpoint answers 404, the file-path endpoint
  serves the file; \<open>no_download_world\<close>: the thumbnail endpoint answers 404 and the
  file-path endpoint cannot be reached.\<close>

definition fallback_world :: env where
  "fallback_world =
     sample_env [search_route (py ''Acme Corp'') (py ''tr'') [py ''Q1''],
                 logo_route (py ''Q1'') (py ''Acme_logo.svg''),
                 (media_request (COMMONS_THUMB (py ''Acme_logo.svg'') 1024), Inr not_found),
                 (media_request (COMMONS_FILEPATH (py ''Acme_logo.svg'')), Inr (ok_bytes png_bytes))]
       (200, 100) (py ''Acme Corp'')"

definition no_download_world :: env where
  "no_download_world =
     sample_env [search_route (py ''Acme Corp'') (py ''tr'') [py ''Q1''],
                 logo_route (py ''Q1'') (py ''Acme_logo.svg''),
                 (media_request (COMMONS_THUMB (py ''Acme_logo.svg'') 1024), Inr not_found)]
       (200, 100) (py ''Acme Corp'')"

text \<open>\<open>bad_image_world\<close>: the download is not an image.\<close>

definition bad_image_world :: env where
  "bad_image_world =
     sample_env [search_route (py ''Acme Corp'') (py ''tr'') [py ''Q1''],
                 logo_route (py ''Q1'') (py ''Acme_logo.svg''),
                 (media_request (COMMONS_THUMB (py ''Acme_logo.svg'') 1024),
                  Inr (ok_bytes (py ''<html>'')))]
       (200, 100) (py ''Acme Corp'')"

text \<open>\<open>sized_world dims\<close>: as \<open>acme_world\<close>, the logo decoding to an image of the
  given size.\<close>

definition sized_world :: "nat \<times> nat \<Rightarrow> env" where
  "sized_world dims = sample_env acme_routes dims (py ''Acme Corp'')"

text \<open>\<open>slash_world\<close>: two brands that differ in a character the file names replace.\<close>

definition slash_world :: env where
  "slash_world =
     sample_env [search_route (py ''A/B'') (py ''tr'') [py ''Q1''],
                 search_route (py ''A:B'') (py ''tr'') [py ''Q2''],
                 logo_route (py ''Q1'') (py ''AB.png''),
                 logo_route (py ''Q2'') (py ''AB.png''),
                 (media_request (COMMONS_THUMB (py ''AB.png'') 1024), Inr (ok_bytes png_bytes))]
       (64, 64) (py ''A/B'' @ [10] @ py ''A:B'' @ [10])"

section \<open>Lemmas and theorems\<close>

lemma strip_idem: "strip (strip s) = strip s"
proof -
  have "lstrip (rstrip (lstrip s)) = rstrip (lstrip s)"
    unfolding lstrip_def rstrip_def
    by (metis (no_types, lifting) dropWhile_eq_Nil_conv dropWhile_eq_self_iff
        dropWhile_idem dropWhile_last hd_rev last_rev rev_is_Nil_conv)
  then show ?thesis
    by (simp add: strip_def rstrip_def)
qed

lemma startswith_hash: "startswith t (py ''#'') \<longleftrightarrow> t \<noteq> [] \<and> hd t = 35"
  by (cases t) (auto simp: startswith_def py_def)

lemma concat_map_if: "concat (map (\<lambda>x. if P x then [f x] else []) xs) = map f (filter P xs)"
  by (induction xs) simp_all

lemma read_brands_filter:
  "read_brands (Inr f) = Inr (spec_read_brands f)"
proof -
  have keep: "(\<lambda>l. strip l \<noteq> [] \<and> \<not> startswith (strip l) (py ''#''))
      = (\<lambda>l. strip l \<noteq> [] \<and> hd (strip l) \<noteq> 35)"
    by (auto simp: startswith_hash)
  show ?thesis
    by (simp add: read_brands_def spec_read_brands_def keep filter_map comp_def concat_map_if)
qed

lemma concat_split_lines: "concat (split_lines s) = s"
  by (induction s) (auto split: list.splits)

lemma logo_trace: "snd (wikidata_get_logo_filename env tr q) = tr @ [Get (claims_request q)]"
  by (simp add: wikidata_get_logo_filename_def get_def split: sum.splits option.splits)

lemma candidates_trace:
  "snd (wikidata_search_candidates env tr n l k) = tr @ [Get (search_request n l k)]"
  by (simp add: wikidata_search_candidates_def get_def split: sum.splits)

lemma attempt_trace: "snd (attempt env tr u) = tr @ [Get (media_request u)]"
  by (simp add: attempt_def get_def media_request_def split: sum.splits)

lemma first_with_logo_skip:
  "(\<forall>j<length pre. no_logo env (fetched tr (take j pre)) (pre ! j)) \<Longrightarrow>
   first_with_logo env tr (pre @ rest) = first_with_logo env (fetched tr pre) rest"
proof (induction pre arbitrary: tr)
  case Nil
  then show ?case by (simp add: fetched_def)
next
  case (Cons q pre)
  from Cons.prems have q: "no_logo env tr q"
    by (auto simp: fetched_def dest: spec[of _ 0])
  have rest: "\<forall>j<length pre. no_logo env (fetched (tr @ [Get (claims_request q)]) (take j pre)) (pre ! j)"
  proof (intro allI impI)
    fix j assume "j < length pre"
    with Cons.prems have "no_logo env (fetched tr (take (Suc j) (q # pre))) ((q # pre) ! Suc j)"
      by (metis Suc_less_eq length_Cons)
    then show "no_logo env (fetched (tr @ [Get (claims_request q)]) (take j pre)) (pre ! j)"
      by (simp add: fetched_def)
  qed
  obtain r t where rt: "wikidata_get_logo_filename env tr q = (r, t)"
    by (cases "wikidata_get_logo_filename env tr q")
  with logo_trace[of env tr q] have t: "t = tr @ [Get (claims_request q)]" by simp
  from q rt obtain f where f: "r = Inr f" "\<not> truthy f"
    by (auto simp: no_logo_def split: sum.splits)
  have "first_with_logo env tr ((q # pre) @ rest) = first_with_logo env t (pre @ rest)"
    using rt f by simp
  also have "\<dots> = first_with_logo env (fetched t pre) rest"
    using Cons.IH[of t] rest t by simp
  also have "fetched t pre = fetched tr (q # pre)"
    by (simp add: fetched_def t)
  finally show ?case .
qed

lemma first_with_logo_hit:
  "has_logo env tr q \<Longrightarrow>
   first_with_logo env tr (q # rest) = (Inr (Some q), fetched tr [q])"
  using logo_trace[of env tr q]
  by (cases "wikidata_get_logo_filename env tr q")
     (auto simp: has_logo_def fetched_def split: sum.splits)

lemma first_with_logo_found:
  assumes "i < length qids"
    and "\<forall>j<i. no_logo env (fetched tr (take j qids)) (qids ! j)"
    and "has_logo env (fetched tr (take i qids)) (qids ! i)"
  shows "first_with_logo env tr qids = (Inr (Some (qids ! i)), fetched tr (take (Suc i) qids))"
proof -
  have split: "qids = take i qids @ (qids ! i) # drop (Suc i) qids"
    using assms(1) by (simp add: id_take_nth_drop)
  have "first_with_logo env tr (take i qids @ (qids ! i) # drop (Suc i) qids)
      = first_with_logo env (fetched tr (take i qids)) ((qids ! i) # drop (Suc i) qids)"
    using assms(1,2) by (intro first_with_logo_skip) simp
  also have "\<dots> = (Inr (Some (qids ! i)), fetched (fetched tr (take i qids)) [qids ! i])"
    using assms(3) by (rule first_with_logo_hit)
  also have "fetched (fetched tr (take i qids)) [qids ! i] = fetched tr (take (Suc i) qids)"
    using assms(1) by (simp add: fetched_def take_Suc_conv_app_nth)
  finally show ?thesis using split by simp
qed

lemma first_with_logo_none:
  assumes "\<forall>j<length qids. no_logo env (fetched tr (take j qids)) (qids ! j)"
  shows "first_with_logo env tr qids = (Inr None, fetched tr qids)"
  using first_with_logo_skip[OF assms, of "[]"] by simp

lemma candidates_pair:
  "fst (wikidata_search_candidates env tr name lang k) = r \<Longrightarrow>
   wikidata_search_candidates env tr name lang k = (r, tr @ [Get (search_request name lang k)])"
  using candidates_trace[of env tr name lang k]
  by (cases "wikidata_search_candidates env tr name lang k") simp

lemma search_step_found:
  assumes "fst (wikidata_search_candidates env tr name lang 15) = Inr cands"
    and "i < length cands"
    and "\<forall>j<i. no_logo env (fetched (tr @ [Get (search_request name lang 15)]) (take j cands)) (cands ! j)"
    and "has_logo env (fetched (tr @ [Get (search_request name lang 15)]) (take i cands)) (cands ! i)"
  shows "search_languages env tr name (lang # langs)
       = (Inr (cands ! i), fetched (tr @ [Get (search_request name lang 15)]) (take (Suc i) cands))"
  using candidates_pair[OF assms(1)] first_with_logo_found[OF assms(2,3,4)]
  by simp

lemma search_step_fallback:
  assumes "fst (wikidata_search_candidates env tr name lang 15) = Inr cands"
    and "cands \<noteq> []"
    and "\<forall>j<length cands. no_logo env (fetched (tr @ [Get (search_request name lang 15)]) (take j cands)) (cands ! j)"
  shows "search_languages env tr name (lang # langs)
       = (Inr (hd cands), fetched (tr @ [Get (search_request name lang 15)]) cands)"
  using candidates_pair[OF assms(1)] first_with_logo_none[OF assms(3)] assms(2)
  by (cases cands) simp_all

lemma search_step_empty:
  assumes "fst (wikidata_search_candidates env tr name lang 15) = Inr []"
  shows "search_languages env tr name (lang # langs)
       = search_languages env (tr @ [Get (search_request name lang 15)]) name langs"
  using candidates_pair[OF assms(1)] by simp

text \<open>
  Claim C1. The entity resolver asks for the candidates in Turkish first and in English
  second, each time with the limit 15 in the request (\<open>t1\<close> and \<open>t2\<close> are the traces
  after the first and after the second search). In the list a language's search returns
  it fetches the logo attribute of the candidates in order and returns the first
  candidate whose fetch yields a filename, having made exactly the fetches up to that
  candidate; when no candidate of a non-empty list has a logo it returns the first
  candidate of the list; when the Turkish list is empty it goes on to English, where the
  same holds; when both lists are empty it returns no entity (\<open>None\<close>) after the two
  searches. The bound 15 is the limit the request carries: the program scans the list
  the response holds. The statement is about runs in which the calls named return; a
  call that raises ends the resolver with that exception.
\<close>
theorem wikidata_search_entity_order:
  fixes env :: env and tr :: "event list" and name :: pystr
  defines "t1 \<equiv> tr @ [Get (search_request name (py ''tr'') 15)]"
  defines "t2 \<equiv> t1 @ [Get (search_request name (py ''en'') 15)]"
  shows
  "(fst (wikidata_search_candidates env tr name (py ''tr'') 15) = Inr cands \<and> cands \<noteq> [] \<longrightarrow>
      (\<forall>i<length cands.
          (\<forall>j<i. no_logo env (fetched t1 (take j cands)) (cands ! j)) \<and>
          has_logo env (fetched t1 (take i cands)) (cands ! i) \<longrightarrow>
          wikidata_search_entity env tr name = (Inr (cands ! i), fetched t1 (take (Suc i) cands))) \<and>
      ((\<forall>j<length cands. no_logo env (fetched t1 (take j cands)) (cands ! j)) \<longrightarrow>
          wikidata_search_entity env tr name = (Inr (hd cands), fetched t1 cands))) \<and>
   (fst (wikidata_search_candidates env tr name (py ''tr'') 15) = Inr [] \<and>
    fst (wikidata_search_candidates env t1 name (py ''en'') 15) = Inr cands \<and> cands \<noteq> [] \<longrightarrow>
      (\<forall>i<length cands.
          (\<forall>j<i. no_logo env (fetched t2 (take j cands)) (cands ! j)) \<and>
          has_logo env (fetched t2 (take i cands)) (cands ! i) \<longrightarrow>
          wikidata_search_entity env tr name = (Inr (cands ! i), fetched t2 (take (Suc i) cands))) \<and>
      ((\<forall>j<length cands. no_logo env (fetched t2 (take j cands)) (cands ! j)) \<longrightarrow>
          wikidata_search_entity env tr name = (Inr (hd cands), fetched t2 cands))) \<and>
   (fst (wikidata_search_candidates env tr name (py ''tr'') 15) = Inr [] \<and>
    fst (wikidata_search_candidates env t1 name (py ''en'') 15) = Inr [] \<longrightarrow>
      wikidata_search_entity env tr name = (Inr JNull, t2))"
proof (intro conjI impI allI; (elim conjE)?)
  fix i
  assume "fst (wikidata_search_candidates env tr name (py ''tr'') 15) = Inr cands"
    "i < length cands" "\<forall>j<i. no_logo env (fetched t1 (take j cands)) (cands ! j)"
    "has_logo env (fetched t1 (take i cands)) (cands ! i)"
  then show "wikidata_search_entity env tr name = (Inr (cands ! i), fetched t1 (take (Suc i) cands))"
    unfolding wikidata_search_entity_def t1_def by (rule search_step_found)
next
  assume "fst (wikidata_search_candidates env tr name (py ''tr'') 15) = Inr cands" "cands \<noteq> []"
    "\<forall>j<length cands. no_logo env (fetched t1 (take j cands)) (cands ! j)"
  then show "wikidata_search_entity env tr name = (Inr (hd cands), fetched t1 cands)"
    unfolding wikidata_search_entity_def t1_def by (rule search_step_fallback)
next
  fix i
  assume e: "fst (wikidata_search_candidates env tr name (py ''tr'') 15) = Inr []"
    and en: "fst (wikidata_search_candidates env t1 name (py ''en'') 15) = Inr cands"
    "i < length cands" "\<forall>j<i. no_logo env (fetched t2 (take j cands)) (cands ! j)"
    "has_logo env (fetched t2 (take i cands)) (cands ! i)"
  from en have "search_languages env t1 name [py ''en'']
      = (Inr (cands ! i), fetched t2 (take (Suc i) cands))"
    unfolding t2_def by (rule search_step_found)
  then show "wikidata_search_entity env tr name = (Inr (cands ! i), fetched t2 (take (Suc i) cands))"
    unfolding wikidata_search_entity_def t1_def using search_step_empty[OF e] by simp
next
  assume e: "fst (wikidata_search_candidates env tr name (py ''tr'') 15) = Inr []"
    and en: "fst (wikidata_search_candidates env t1 name (py ''en'') 15) = Inr cands" "cands \<noteq> []"
    "\<forall>j<length cands. no_logo env (fetched t2 (take j cands)) (cands ! j)"
  from en have "search_languages env t1 name [py ''en''] = (Inr (hd cands), fetched t2 cands)"
    unfolding t2_def by (rule search_step_fallback)
  then show "wikidata_search_entity env tr name = (Inr (hd cands), fetched t2 cands)"
    unfolding wikidata_search_entity_def t1_def using search_step_empty[OF e] by simp
next
  assume e: "fst (wikidata_search_candidates env tr name (py ''tr'') 15) = Inr []"
    and e2: "fst (wikidata_search_candidates env t1 name (py ''en'') 15) = Inr []"
  show "wikidata_search_entity env tr name = (Inr JNull, t2)"
    unfolding wikidata_search_entity_def
    using search_step_empty[OF e] search_step_empty[OF e2[unfolded t1_def]]
    by (simp add: t1_def t2_def)
qed

lemmas world_defs = acme_routes_def acme_world_def unknown_world_def no_logo_world_def
  fallback_world_def no_download_world_def bad_image_world_def sized_world_def slash_world_def

lemmas text_defs =
  read_brands_def spec_read_brands_def file_lines_def strip_def lstrip_def rstrip_def
  isspace_def startswith_def py_def sanitize_filename_def SAFE_FILENAME_PATTERN_def

lemmas run_defs =
  sample_env_def table_get_def search_route_def logo_route_def no_logo_route_def
  search_request_def claims_request_def media_request_def py_def WIKIDATA_API_def
  COMMONS_THUMB_def COMMONS_FILEPATH_def ok_json_def ok_bytes_def not_found_def png_bytes_def
  process_brand_def process_brand_body_def wikidata_search_entity_def
  wikidata_search_candidates_def wikidata_get_logo_filename_def get_def raise_for_status_def
  json_get_def json_iter_def json_contains_def logo_value_def getitem_key_def getitem_0_def
  download_commons_raster_def py_quote_def py_str_def attempt_def utf8_def unreserved_def
  hex_digit_def str_nat.simps
  to_png_128_def sample_open_def contain_def contain_size_def Image_new_def resize_def red_def
  fdiv_def float_exponent_def scaled_def bit_length.simps round_half_even_def
  float_eq_def float_less_def fmul_def py_round_def ZeroDivisionError_def
  has_logo_def no_logo_def fetched_def succeeds_def Let_def
  sanitize_filename_def SAFE_FILENAME_PATTERN_def strip_def lstrip_def rstrip_def isspace_def
  saved_files_def opens_def gets_def

text \<open>A run of the first case: the Turkish search finds \<open>Q1\<close> (no logo) and \<open>Q2\<close> (a
  logo); the resolver returns \<open>Q2\<close> after one search and two fetches.\<close>
theorem wikidata_search_entity_order_witness:
  "no_logo (sample_env [search_route (py ''Acme'') (py ''tr'') [py ''Q1'', py ''Q2''],
                         no_logo_route (py ''Q1''), logo_route (py ''Q2'') (py ''Acme.svg'')] (1, 1) [])
     (fetched [Get (search_request (py ''Acme'') (py ''tr'') 15)] []) (JStr (py ''Q1'')) \<and>
   has_logo (sample_env [search_route (py ''Acme'') (py ''tr'') [py ''Q1'', py ''Q2''],
                         no_logo_route (py ''Q1''), logo_route (py ''Q2'') (py ''Acme.svg'')] (1, 1) [])
     (fetched [Get (search_request (py ''Acme'') (py ''tr'') 15)] [JStr (py ''Q1'')])
     (JStr (py ''Q2'')) \<and>
   wikidata_search_entity
     (sample_env [search_route (py ''Acme'') (py ''tr'') [py ''Q1'', py ''Q2''],
                  no_logo_route (py ''Q1''), logo_route (py ''Q2'') (py ''Acme.svg'')] (1, 1) [])
     [] (py ''Acme'')
   = (Inr (JStr (py ''Q2'')),
      [Get (search_request (py ''Acme'') (py ''tr'') 15), Get (claims_request (JStr (py ''Q1''))),
       Get (claims_request (JStr (py ''Q2'')))])"
proof -
  define env where "env = sample_env [search_route (py ''Acme'') (py ''tr'') [py ''Q1'', py ''Q2''],
                  no_logo_route (py ''Q1''), logo_route (py ''Q2'') (py ''Acme.svg'')] (1, 1) []"
  define cands where "cands = [JStr (py ''Q1''), JStr (py ''Q2'')]"
  define t1 where "t1 = [Get (search_request (py ''Acme'') (py ''tr'') 15)]"
  have c: "fst (wikidata_search_candidates env [] (py ''Acme'') (py ''tr'') 15) = Inr cands"
    by (simp add: env_def cands_def run_defs)
  have n: "no_logo env (fetched t1 []) (JStr (py ''Q1''))"
    by (simp add: env_def t1_def run_defs)
  have h: "has_logo env (fetched t1 [JStr (py ''Q1'')]) (JStr (py ''Q2''))"
    by (simp add: env_def t1_def run_defs)
  have before: "\<forall>j<1. no_logo env (fetched t1 (take j cands)) (cands ! j)"
    using n by (simp add: cands_def)
  have at: "has_logo env (fetched t1 (take 1 cands)) (cands ! 1)"
    using h by (simp add: cands_def)
  have ne: "cands \<noteq> []" and len: "1 < length cands"
    by (simp_all add: cands_def)
  note order = wikidata_search_entity_order[of env "[]" "py ''Acme''" cands, folded t1_def]
  from order c ne
  have "\<forall>i<length cands.
          (\<forall>j<i. no_logo env (fetched t1 (take j cands)) (cands ! j)) \<and>
          has_logo env (fetched t1 (take i cands)) (cands ! i) \<longrightarrow>
          wikidata_search_entity env [] (py ''Acme'')
            = (Inr (cands ! i), fetched t1 (take (Suc i) cands))"
    by simp
  from this[rule_format, of 1] len before at
  have "wikidata_search_entity env [] (py ''Acme'')
      = (Inr (cands ! 1), fetched t1 (take (Suc 1) cands))"
    by blast
  then have "wikidata_search_entity env [] (py ''Acme'')
      = (Inr (JStr (py ''Q2'')),
      [Get (search_request (py ''Acme'') (py ''tr'') 15), Get (claims_request (JStr (py ''Q1''))),
       Get (claims_request (JStr (py ''Q2'')))])"
    by (simp add: cands_def t1_def fetched_def)
  with n h show ?thesis
    unfolding env_def t1_def by simp
qed

lemma only_gets_append: "only_gets tr (tr @ es) \<longleftrightarrow> list_all is_get es"
  by (simp add: only_gets_def)

lemma only_queries_append: "only_queries tr (tr @ es) \<longleftrightarrow> list_all is_query es"
  by (simp add: only_queries_def)

lemma only_getsE: "only_gets tr tr' \<Longrightarrow> \<exists>es. tr' = tr @ es \<and> list_all is_get es"
  unfolding only_gets_def by (metis append_take_drop_id)

lemma only_queriesE: "only_queries tr tr' \<Longrightarrow> \<exists>es. tr' = tr @ es \<and> list_all is_query es"
  unfolding only_queries_def by (metis append_take_drop_id)

lemma is_query_is_get: "is_query ev \<Longrightarrow> is_get ev"
  by (cases ev) simp_all

lemma only_queries_gets: "only_queries tr tr' \<Longrightarrow> only_gets tr tr'"
  by (auto dest!: only_queriesE simp: only_gets_append list_all_iff is_query_is_get)

lemma only_gets_refl: "only_gets tr tr"
  using only_gets_append[of tr "[]"] by simp

lemma only_queries_refl: "only_queries tr tr"
  using only_queries_append[of tr "[]"] by simp

lemma only_gets_trans: "only_gets a b \<Longrightarrow> only_gets b c \<Longrightarrow> only_gets a c"
  by (auto dest!: only_getsE simp: only_gets_append)

lemma only_queries_trans: "only_queries a b \<Longrightarrow> only_queries b c \<Longrightarrow> only_queries a c"
  by (auto dest!: only_queriesE simp: only_queries_append)

lemma saved_files_append: "saved_files (a @ b) = saved_files a @ saved_files b"
  by (simp add: saved_files_def)

lemma opens_append: "opens (a @ b) = opens a @ opens b"
  by (simp add: opens_def)

lemma gets_append: "gets (a @ b) = gets a @ gets b"
  by (simp add: gets_def)

lemma saved_files_gets: "list_all is_get es \<Longrightarrow> saved_files es = []"
proof (induction es)
  case Nil
  show ?case by (simp add: saved_files_def)
next
  case (Cons ev es)
  then show ?case by (cases ev) (simp_all add: saved_files_def)
qed

lemma opens_gets: "list_all is_get es \<Longrightarrow> opens es = []"
proof (induction es)
  case Nil
  show ?case by (simp add: opens_def)
next
  case (Cons ev es)
  then show ?case by (cases ev) (simp_all add: opens_def)
qed

lemma only_gets_saved: "only_gets tr tr' \<Longrightarrow> saved_files tr' = saved_files tr"
  by (auto dest!: only_getsE simp: saved_files_append saved_files_gets)

lemma only_gets_opens: "only_gets tr tr' \<Longrightarrow> opens tr' = opens tr"
  by (auto dest!: only_getsE simp: opens_append opens_gets)

lemma claims_request_url: "req_url (claims_request q) = WIKIDATA_API"
  by (simp add: claims_request_def)

lemma search_request_url: "req_url (search_request n l k) = WIKIDATA_API"
  by (simp add: search_request_def)

lemma logo_queries:
  "wikidata_get_logo_filename env tr q = (r, t) \<Longrightarrow> only_queries tr t"
  using logo_trace[of env tr q] by (simp add: only_queries_append claims_request_url)

lemma first_with_logo_queries:
  "first_with_logo env tr qs = (r, t) \<Longrightarrow> only_queries tr t"
proof (induction qs arbitrary: tr)
  case Nil
  then show ?case by (simp add: only_queries_refl)
next
  case (Cons q qs)
  obtain r1 t1 where s: "wikidata_get_logo_filename env tr q = (r1, t1)"
    by (cases "wikidata_get_logo_filename env tr q")
  note q1 = logo_queries[OF s]
  show ?case
  proof (cases r1)
    case (Inl e)
    with Cons.prems s q1 show ?thesis by simp
  next
    case (Inr f)
    show ?thesis
    proof (cases "truthy f")
      case True
      with Cons.prems s Inr q1 show ?thesis by simp
    next
      case False
      with Cons.prems s Inr have "first_with_logo env t1 qs = (r, t)" by simp
      from Cons.IH[OF this] q1 show ?thesis by (rule only_queries_trans[rotated])
    qed
  qed
qed

lemma candidates_queries:
  "wikidata_search_candidates env tr n l k = (r, t) \<Longrightarrow> only_queries tr t"
  using candidates_trace[of env tr n l k] by (simp add: only_queries_append search_request_url)

lemma search_languages_queries:
  "search_languages env tr n langs = (r, t) \<Longrightarrow> only_queries tr t"
proof (induction langs arbitrary: tr)
  case Nil
  then show ?case by (simp add: only_queries_refl)
next
  case (Cons l langs)
  obtain r1 t1 where s: "wikidata_search_candidates env tr n l 15 = (r1, t1)"
    by (cases "wikidata_search_candidates env tr n l 15")
  note q1 = candidates_queries[OF s]
  show ?case
  proof (cases r1)
    case (Inl e)
    with Cons.prems s q1 show ?thesis by simp
  next
    case (Inr cands)
    obtain r2 t2 where f: "first_with_logo env t1 cands = (r2, t2)"
      by (cases "first_with_logo env t1 cands")
    note q2 = only_queries_trans[OF q1 first_with_logo_queries[OF f]]
    show ?thesis
    proof (cases r2)
      case (Inl e)
      with Cons.prems s Inr f q2 show ?thesis by simp
    next
      case inr: (Inr found)
      show ?thesis
      proof (cases found)
        case (Some q)
        with Cons.prems s Inr f inr q2 show ?thesis by simp
      next
        case None
        show ?thesis
        proof (cases cands)
          case Nil
          with Cons.prems s Inr f inr None
          have "search_languages env t2 n langs = (r, t)" by simp
          from q2 Cons.IH[OF this] show ?thesis by (rule only_queries_trans)
        next
          case (Cons c cs)
          with Cons.prems s Inr f inr None q2 show ?thesis by simp
        qed
      qed
    qed
  qed
qed

lemma search_entity_queries:
  "wikidata_search_entity env tr n = (r, t) \<Longrightarrow> only_queries tr t"
  unfolding wikidata_search_entity_def by (rule search_languages_queries)

lemma attempt_gets: "attempt env tr u = (r, t) \<Longrightarrow> only_gets tr t"
  using attempt_trace[of env tr u] by (simp add: only_gets_append)

lemma download_gets:
  "download_commons_raster env tr f = (r, t) \<Longrightarrow> only_gets tr t"
  unfolding download_commons_raster_def
  by (auto split: sum.splits prod.splits option.splits
      intro: only_gets_refl attempt_gets only_gets_trans[OF attempt_gets attempt_gets])

lemma png_trace: "to_png_128 env tr b = (r, t) \<Longrightarrow> t = tr @ [Open b]"
  unfolding to_png_128_def by (auto simp: Let_def split: sum.splits)


lemma entry_ids_truthy: "entry_ids es = Inr ids \<Longrightarrow> list_all truthy ids"
  by (induction es arbitrary: ids) (auto split: sum.splits if_splits)

lemma candidates_truthy:
  "wikidata_search_candidates env tr n l k = (Inr cands, t) \<Longrightarrow> list_all truthy cands"
  unfolding wikidata_search_candidates_def
  by (auto split: sum.splits prod.splits dest: entry_ids_truthy)

lemma first_with_logo_member:
  "first_with_logo env tr qs = (Inr (Some q), t) \<Longrightarrow> q \<in> set qs"
  by (induction qs arbitrary: tr) (auto split: sum.splits prod.splits if_splits)

lemma search_languages_falsy:
  "search_languages env tr n langs = (Inr qid, t) \<Longrightarrow> \<not> truthy qid \<Longrightarrow>
   t = tr @ map (\<lambda>l. Get (search_request n l 15)) langs"
proof (induction langs arbitrary: tr)
  case Nil
  then show ?case by simp
next
  case (Cons l langs)
  obtain r1 t1 where s: "wikidata_search_candidates env tr n l 15 = (r1, t1)"
    by (cases "wikidata_search_candidates env tr n l 15")
  with candidates_trace[of env tr n l 15] have t1: "t1 = tr @ [Get (search_request n l 15)]"
    by simp
  from Cons.prems(1) s obtain cands where r1: "r1 = Inr cands"
    by (cases r1) auto
  note tru = candidates_truthy[OF s[unfolded r1]]
  obtain r2 t2 where f: "first_with_logo env t1 cands = (r2, t2)"
    by (cases "first_with_logo env t1 cands")
  from Cons.prems(1) s r1 f obtain found where r2: "r2 = Inr found"
    by (cases r2) auto
  have "found = None"
  proof (cases found)
    case (Some q)
    with Cons.prems(1) s r1 f r2 have "qid = q" by simp
    moreover from first_with_logo_member f r2 Some have "q \<in> set cands" by blast
    ultimately show ?thesis using tru Cons.prems(2) by (simp add: list_all_iff)
  qed simp
  moreover have "cands = []"
  proof (cases cands)
    case (Cons c cs)
    with Cons.prems(1) s r1 f r2 \<open>found = None\<close> have "qid = c" by simp
    with tru Cons Cons.prems(2) show ?thesis by simp
  qed simp
  ultimately have "search_languages env t1 n langs = (Inr qid, t)"
    using Cons.prems(1) s r1 f r2 by simp
  from Cons.IH[OF this Cons.prems(2)] t1 show ?case by simp
qed

lemma search_entity_falsy:
  "wikidata_search_entity env tr n = (Inr qid, t) \<Longrightarrow> \<not> truthy qid \<Longrightarrow>
   t = tr @ [Get (search_request n (py ''tr'') 15), Get (search_request n (py ''en'') 15)]"
  unfolding wikidata_search_entity_def by (drule (1) search_languages_falsy) simp

text \<open>
  Claim C5. A stage that fails ends the processing of the brand with a record
  \<open>(brand, False, reason)\<close> whose reason names the stage, and the later stages do not
  run: when the resolver finds no entity the only requests made are the two searches (no
  attribute fetch, no download); when the attribute fetch yields no logo, every request
  made went to the knowledge base (no download); when the download yields nothing (or no
  bytes), nothing was handed to the image decoder and no file was written; when the
  normalizer cannot decode the bytes, no file was written.
\<close>
theorem process_brand_short_circuit:
  "(wikidata_search_entity env tr brand = (Inr qid, t1) \<and> \<not> truthy qid \<longrightarrow>
      process_brand env tr brand = ((brand, False, py ''No Wikidata item found''), t1) \<and>
      t1 = tr @ [Get (search_request brand (py ''tr'') 15),
                 Get (search_request brand (py ''en'') 15)]) \<and>
   (wikidata_search_entity env tr brand = (Inr qid, t1) \<and> truthy qid \<and>
    wikidata_get_logo_filename env t1 qid = (Inr filename, t2) \<and> \<not> truthy filename \<longrightarrow>
      process_brand env tr brand
        = ((brand, False, py ''No logo (P154) for '' @ py_str env qid), t2) \<and>
      only_queries tr t2) \<and>
   (wikidata_search_entity env tr brand = (Inr qid, t1) \<and> truthy qid \<and>
    wikidata_get_logo_filename env t1 qid = (Inr filename, t2) \<and> truthy filename \<and>
    download_commons_raster env t2 filename = (Inr img_bytes, t3) \<and>
    (img_bytes = None \<or> img_bytes = Some []) \<longrightarrow>
      process_brand env tr brand = ((brand, False, py ''Download failed''), t3) \<and>
      opens t3 = opens tr \<and> saved_files t3 = saved_files tr) \<and>
   (wikidata_search_entity env tr brand = (Inr qid, t1) \<and> truthy qid \<and>
    wikidata_get_logo_filename env t1 qid = (Inr filename, t2) \<and> truthy filename \<and>
    download_commons_raster env t2 filename = (Inr (Some bytes), t3) \<and> bytes \<noteq> [] \<and>
    to_png_128 env t3 bytes = (Inr None, t4) \<longrightarrow>
      process_brand env tr brand = ((brand, False, py ''Conversion failed''), t4) \<and>
      saved_files t4 = saved_files tr)"
proof (intro conjI impI; (elim conjE)?)
  assume a: "wikidata_search_entity env tr brand = (Inr qid, t1)" "\<not> truthy qid"
  then show "process_brand env tr brand = ((brand, False, py ''No Wikidata item found''), t1)"
    by (simp add: process_brand_def process_brand_body_def)
  from a show "t1 = tr @ [Get (search_request brand (py ''tr'') 15),
                 Get (search_request brand (py ''en'') 15)]"
    by (rule search_entity_falsy)
next
  assume a: "wikidata_search_entity env tr brand = (Inr qid, t1)" "truthy qid"
    "wikidata_get_logo_filename env t1 qid = (Inr filename, t2)" "\<not> truthy filename"
  then show "process_brand env tr brand
        = ((brand, False, py ''No logo (P154) for '' @ py_str env qid), t2)"
    by (simp add: process_brand_def process_brand_body_def)
  from search_entity_queries[OF a(1)] logo_queries[OF a(3)]
  show "only_queries tr t2" by (rule only_queries_trans)
next
  assume a: "wikidata_search_entity env tr brand = (Inr qid, t1)" "truthy qid"
    "wikidata_get_logo_filename env t1 qid = (Inr filename, t2)" "truthy filename"
    "download_commons_raster env t2 filename = (Inr img_bytes, t3)"
    "img_bytes = None \<or> img_bytes = Some []"
  then show "process_brand env tr brand = ((brand, False, py ''Download failed''), t3)"
    by (auto simp: process_brand_def process_brand_body_def)
  have g: "only_gets tr t3"
    using only_queries_gets[OF search_entity_queries[OF a(1)]]
      only_queries_gets[OF logo_queries[OF a(3)]] download_gets[OF a(5)]
    by (blast intro: only_gets_trans)
  from g show "opens t3 = opens tr" by (rule only_gets_opens)
  from g show "saved_files t3 = saved_files tr" by (rule only_gets_saved)
next
  assume a: "wikidata_search_entity env tr brand = (Inr qid, t1)" "truthy qid"
    "wikidata_get_logo_filename env t1 qid = (Inr filename, t2)" "truthy filename"
    "download_commons_raster env t2 filename = (Inr (Some bytes), t3)" "bytes \<noteq> []"
    "to_png_128 env t3 bytes = (Inr None, t4)"
  then show "process_brand env tr brand = ((brand, False, py ''Conversion failed''), t4)"
    by (simp add: process_brand_def process_brand_body_def)
  have g: "only_gets tr t3"
    using only_queries_gets[OF search_entity_queries[OF a(1)]]
      only_queries_gets[OF logo_queries[OF a(3)]] download_gets[OF a(5)]
    by (blast intro: only_gets_trans)
  from png_trace[OF a(7)] only_gets_saved[OF g]
  show "saved_files t4 = saved_files tr"
    by (simp add: saved_files_append saved_files_def)
qed

text \<open>
  Claim C4. \<open>process_brand\<close> returns a record for every brand: an exception that
  leaves the body of its \<open>try\<close> block becomes \<open>(brand, False, "Error: " + str(e))\<close>,
  whichever stage raised it: the resolver, the attribute fetch, the download, the
  normalizer or the writing of the file. The record is for the brand it was called with,
  and a run over a list of brands yields one record per brand, in order, whatever
  happened to the brands before. (Exceptions are instances of \<open>Exception\<close>, which is
  what the stages raise; an exception caught inside a stage, as in the two download
  attempts, never leaves it and gives that stage's own failure instead.)
\<close>
theorem process_brand_catches:
  "(process_brand_body env tr brand = (Inl e, t) \<longrightarrow>
      process_brand env tr brand = ((brand, False, py ''Error: '' @ str_exn e), t)) \<and>
   (wikidata_search_entity env tr brand = (Inl e, t1) \<longrightarrow>
      process_brand env tr brand = ((brand, False, py ''Error: '' @ str_exn e), t1)) \<and>
   (wikidata_search_entity env tr brand = (Inr qid, t1) \<and> truthy qid \<and>
    wikidata_get_logo_filename env t1 qid = (Inl e, t2) \<longrightarrow>
      process_brand env tr brand = ((brand, False, py ''Error: '' @ str_exn e), t2)) \<and>
   (wikidata_search_entity env tr brand = (Inr qid, t1) \<and> truthy qid \<and>
    wikidata_get_logo_filename env t1 qid = (Inr filename, t2) \<and> truthy filename \<and>
    download_commons_raster env t2 filename = (Inl e, t3) \<longrightarrow>
      process_brand env tr brand = ((brand, False, py ''Error: '' @ str_exn e), t3)) \<and>
   (wikidata_search_entity env tr brand = (Inr qid, t1) \<and> truthy qid \<and>
    wikidata_get_logo_filename env t1 qid = (Inr filename, t2) \<and> truthy filename \<and>
    download_commons_raster env t2 filename = (Inr (Some bytes), t3) \<and> bytes \<noteq> [] \<and>
    to_png_128 env t3 bytes = (Inl e, t4) \<longrightarrow>
      process_brand env tr brand = ((brand, False, py ''Error: '' @ str_exn e), t4)) \<and>
   (wikidata_search_entity env tr brand = (Inr qid, t1) \<and> truthy qid \<and>
    wikidata_get_logo_filename env t1 qid = (Inr filename, t2) \<and> truthy filename \<and>
    download_commons_raster env t2 filename = (Inr (Some bytes), t3) \<and> bytes \<noteq> [] \<and>
    to_png_128 env t3 bytes = (Inr (Some img), t4) \<and>
    image_save env t4 (sanitize_filename brand @ py ''.png'') img = Inl e \<longrightarrow>
      process_brand env tr brand
        = ((brand, False, py ''Error: '' @ str_exn e),
           t4 @ [Save (sanitize_filename brand @ py ''.png'') img])) \<and>
   fst (fst (process_brand env tr brand)) = brand \<and>
   map fst (results env tr brands) = brands"
proof -
  have brand: "fst (fst (process_brand env tr brand)) = brand" for tr brand
    unfolding process_brand_def process_brand_body_def
    by (simp add: Let_def split: sum.splits prod.splits option.splits)
  have "map fst (results env tr brands) = brands"
  proof (induction brands arbitrary: tr)
    case Nil
    show ?case by simp
  next
    case (Cons b bs)
    obtain r t where p: "process_brand env tr b = (r, t)"
      by (cases "process_brand env tr b")
    with brand[of tr b] have "fst r = b" by simp
    with p Cons.IH[of t] show ?case by simp
  qed
  moreover have "process_brand_body env tr brand = (Inl e, t) \<longrightarrow>
      process_brand env tr brand = ((brand, False, py ''Error: '' @ str_exn e), t)"
    by (simp add: process_brand_def)
  ultimately show ?thesis
    using brand[of tr brand] by (simp add: process_brand_def process_brand_body_def)
qed

lemma main_loop_results:
  "main_loop env tr brands ok fail out =
     (ok + length (filter succeeded (results env tr brands)),
      fail + length (filter (\<lambda>r. \<not> succeeded r) (results env tr brands)),
      out @ map status_line (results env tr brands),
      final_trace env tr brands)"
proof (induction brands arbitrary: tr ok fail out)
  case Nil
  show ?case by simp
next
  case (Cons b bs)
  obtain b' success msg t where p: "process_brand env tr b = ((b', success, msg), t)"
    by (cases "process_brand env tr b") auto
  show ?case
    using p Cons.IH[of t] by (simp add: succeeded_def)
qed

lemma length_results: "length (results env tr brands) = length brands"
  by (induction brands arbitrary: tr) (auto split: prod.splits)

lemma process_brand_fst: "fst (fst (process_brand env tr brand)) = brand"
  unfolding process_brand_def process_brand_body_def
  by (simp add: Let_def split: sum.splits prod.splits option.splits)

lemma results_brands: "map fst (results env tr brands) = brands"
proof (induction brands arbitrary: tr)
  case Nil
  show ?case by simp
next
  case (Cons b bs)
  obtain r t where p: "process_brand env tr b = (r, t)"
    by (cases "process_brand env tr b")
  with process_brand_fst[of env tr b] have "fst r = b" by simp
  with p Cons.IH[of t] show ?case by simp
qed

text \<open>
  Claim C6. When the output directory is made and the brands are read, \<open>main\<close> returns
  0 if the run has a successful brand and 1 otherwise; with no brand it returns 1.
\<close>
theorem main_exit_status:
  "output_mkdir env = Inr u \<and> read_brands (open_brands env) = Inr brands \<longrightarrow>
     fst (main env tr) = Inr (if list_ex succeeded (results env tr brands) then 0 else 1) \<and>
     (brands = [] \<longrightarrow> fst (main env tr) = Inr 1)"
proof (intro impI, elim conjE)
  assume a: "output_mkdir env = Inr u" "read_brands (open_brands env) = Inr brands"
  have "(0 < length (filter succeeded rs)) = list_ex succeeded rs" for rs :: "result list"
    by (simp add: list_ex_iff filter_empty_conv)
  with a have "fst (main env tr) = Inr (if list_ex succeeded (results env tr brands) then 0 else 1)"
    by (simp add: main_def main_loop_results)
  then show "fst (main env tr) = Inr (if list_ex succeeded (results env tr brands) then 0 else 1) \<and>
     (brands = [] \<longrightarrow> fst (main env tr) = Inr 1)"
    by auto
qed

text \<open>
  Claim C10. \<open>main\<close> prints the status line of every brand, in the order of the input
  (\<open>rs\<close> are the records of the run, the i-th the record of the i-th brand), and then
  the summary line, whose two counts are the number of successful and of failed records;
  they add up to the number of brands read.
\<close>
theorem main_prints_every_brand:
  fixes env :: env and tr :: "event list" and brands :: "pystr list"
  defines "rs \<equiv> results env tr brands"
  shows
  "output_mkdir env = Inr u \<and> read_brands (open_brands env) = Inr brands \<longrightarrow>
     fst (snd (main env tr))
       = map status_line rs
         @ [summary_line (length (filter succeeded rs)) (length (filter (\<lambda>r. \<not> succeeded r) rs))] \<and>
     map fst rs = brands \<and>
     length (filter succeeded rs) + length (filter (\<lambda>r. \<not> succeeded r) rs) = length brands"
proof (intro impI, elim conjE)
  assume a: "output_mkdir env = Inr u" "read_brands (open_brands env) = Inr brands"
  have "length (filter succeeded rs) + length (filter (\<lambda>r. \<not> succeeded r) rs) = length rs"
    by (rule sum_length_filter_compl)
  with a show "fst (snd (main env tr))
       = map status_line rs
         @ [summary_line (length (filter succeeded rs)) (length (filter (\<lambda>r. \<not> succeeded r) rs))] \<and>
     map fst rs = brands \<and>
     length (filter succeeded rs) + length (filter (\<lambda>r. \<not> succeeded r) rs) = length brands"
    by (simp add: main_def main_loop_results rs_def results_brands length_results)
qed

text \<open>
  Claim C9. For a filename that \<open>quote\<close> encodes to \<open>quoted\<close>, the downloader first
  requests the thumbnail endpoint for \<open>quoted\<close> at width 1024 and returns its content
  when that request succeeds, after this one request; when it fails (the call raises, or
  the status is an error status) the downloader requests the file-path endpoint for the
  same \<open>quoted\<close> and returns its content when it succeeds; when both fail it returns
  \<open>None\<close>. In either of the last two cases exactly these two requests were made.
\<close>
theorem download_commons_raster_fallback:
  fixes env :: env and tr :: "event list" and quoted :: pystr
  defines "thumb \<equiv> media_request (COMMONS_THUMB quoted 1024)"
  defines "direct \<equiv> media_request (COMMONS_FILEPATH quoted)"
  shows
  "url_quote env filename = Inr quoted \<longrightarrow>
     (session_get env tr thumb = Inr r \<and> succeeds (Inr r) \<longrightarrow>
        download_commons_raster env tr (JStr filename)
          = (Inr (Some (content r)), tr @ [Get thumb])) \<and>
     (\<not> succeeds (session_get env tr thumb) \<and>
      session_get env (tr @ [Get thumb]) direct = Inr r \<and> succeeds (Inr r) \<longrightarrow>
        download_commons_raster env tr (JStr filename)
          = (Inr (Some (content r)), tr @ [Get thumb, Get direct])) \<and>
     (\<not> succeeds (session_get env tr thumb) \<and>
      \<not> succeeds (session_get env (tr @ [Get thumb]) direct) \<longrightarrow>
        download_commons_raster env tr (JStr filename)
          = (Inr None, tr @ [Get thumb, Get direct])) \<and>
     COMMONS_THUMB quoted 1024
       = py ''https://commons.wikimedia.org/w/thumb.php?f='' @ quoted @ py ''&w=1024''"
proof -
  have w: "str_nat 1024 = py ''1024''"
    by (simp add: str_nat.simps py_def)
  have a: "attempt env t u =
      (if succeeds (session_get env t (media_request u))
       then (case session_get env t (media_request u) of Inr r \<Rightarrow> Some (content r) | Inl e \<Rightarrow> None)
       else None, t @ [Get (media_request u)])" for t u
    by (simp add: attempt_def get_def succeeds_def raise_for_status_def media_request_def
        split: sum.splits)
  have addr: "COMMONS_THUMB quoted 1024
       = py ''https://commons.wikimedia.org/w/thumb.php?f='' @ quoted @ py ''&w=1024''"
    by (simp add: COMMONS_THUMB_def w py_def)
  show ?thesis
    using addr by (auto simp: download_commons_raster_def py_quote_def a thumb_def direct_def)
qed


text \<open>
  Claim C7. For every text, \<open>read_brands\<close> returns the trimmed lines that are
  non-empty and do not begin with \<open>#\<close>, in the order of the lines: every element is a
  trimmed line of the text, is itself trimmed, is not empty and does not begin with
  \<open>#\<close>, and every line whose trimmed form is non-empty and not a comment is there. The
  empty text gives the empty list.
\<close>
theorem read_brands_lines:
  "read_brands (Inr f) = Inr (spec_read_brands f) \<and>
   (\<forall>b\<in>set (spec_read_brands f).
      b \<in> set (map strip (file_lines f)) \<and> strip b = b \<and> b \<noteq> [] \<and> \<not> startswith b (py ''#'')) \<and>
   (\<forall>line\<in>set (file_lines f).
      strip line \<noteq> [] \<and> \<not> startswith (strip line) (py ''#'') \<longrightarrow>
      strip line \<in> set (spec_read_brands f)) \<and>
   read_brands (Inr []) = Inr []"
proof (intro conjI ballI impI)
  show "read_brands (Inr f) = Inr (spec_read_brands f)"
    by (rule read_brands_filter)
  show "read_brands (Inr []) = Inr []"
    by (simp add: read_brands_def file_lines_def)
next
  fix b assume b: "b \<in> set (spec_read_brands f)"
  then show "b \<in> set (map strip (file_lines f))" and "b \<noteq> []"
    by (auto simp: spec_read_brands_def)
  from b show "strip b = b"
    by (auto simp: spec_read_brands_def strip_idem)
  from b show "\<not> startswith b (py ''#'')"
    by (auto simp: spec_read_brands_def startswith_hash)
next
  fix line assume "line \<in> set (file_lines f)"
    "strip line \<noteq> [] \<and> \<not> startswith (strip line) (py ''#'')"
  then show "strip line \<in> set (spec_read_brands f)"
    by (auto simp: spec_read_brands_def startswith_hash)
qed

text \<open>A text with a comment, a padded line ending in \<open>\r\n\<close>, an empty line and a last
  line without terminator.\<close>
theorem read_brands_lines_witness:
  "spec_read_brands (py ''# comment'' @ [10] @ py ''  Acme Corp '' @ [13, 10, 10] @ py ''Bolt'')
     = [py ''Acme Corp'', py ''Bolt''] \<and>
   read_brands (Inr (py ''# comment'' @ [10] @ py ''  Acme Corp '' @ [13, 10, 10] @ py ''Bolt''))
     = Inr [py ''Acme Corp'', py ''Bolt''] \<and>
   strip (py ''Acme Corp'') = py ''Acme Corp'' \<and>
   \<not> startswith (py ''Acme Corp'') (py ''#'')"
proof -
  have s: "spec_read_brands (py ''# comment'' @ [10] @ py ''  Acme Corp '' @ [13, 10, 10] @ py ''Bolt'')
     = [py ''Acme Corp'', py ''Bolt'']"
    by (simp add: text_defs)
  from read_brands_lines[of "py ''# comment'' @ [10] @ py ''  Acme Corp '' @ [13, 10, 10] @ py ''Bolt''"]
  show ?thesis
    unfolding s by simp
qed

lemma process_brand_success:
  "process_brand env tr brand = ((b, True, msg), tr') \<Longrightarrow>
   \<exists>qid t1 filename t2 bytes t3 img t4.
     wikidata_search_entity env tr brand = (Inr qid, t1) \<and>
     wikidata_get_logo_filename env t1 qid = (Inr filename, t2) \<and>
     download_commons_raster env t2 filename = (Inr (Some bytes), t3) \<and>
     to_png_128 env t3 bytes = (Inr (Some img), t4) \<and>
     tr' = t4 @ [Save (sanitize_filename brand @ py ''.png'') img]"
  by (auto simp: process_brand_def process_brand_body_def Let_def
      split: prod.splits sum.splits option.splits if_splits)

lemma sanitize_safe:
  "\<forall>c\<in>set b. \<not> SAFE_FILENAME_PATTERN c \<Longrightarrow> strip b = b \<Longrightarrow> sanitize_filename b = b"
  by (simp add: sanitize_filename_def map_idI)

text \<open>
  Claim C8, amended. A brand that is processed successfully adds exactly one file to the
  files written, named by the sanitized brand followed by \<open>.png\<close>. Two different brands
  get different file names when both are trimmed (as the reader returns them) and neither
  contains one of the nine characters the sanitizer replaces.
\<close>
theorem output_file_per_brand:
  "(process_brand env tr brand = ((b, True, msg), tr') \<longrightarrow>
      saved_files tr' = saved_files tr @ [sanitize_filename brand @ py ''.png'']) \<and>
   ((\<forall>c\<in>set b1 \<union> set b2. \<not> SAFE_FILENAME_PATTERN c) \<and> strip b1 = b1 \<and> strip b2 = b2 \<and>
    b1 \<noteq> b2 \<longrightarrow>
      sanitize_filename b1 @ py ''.png'' \<noteq> sanitize_filename b2 @ py ''.png'')"
proof (intro conjI impI)
  assume "process_brand env tr brand = ((b, True, msg), tr')"
  from process_brand_success[OF this] obtain qid t1 filename t2 bytes t3 img t4 where
    s: "wikidata_search_entity env tr brand = (Inr qid, t1)"
      "wikidata_get_logo_filename env t1 qid = (Inr filename, t2)"
      "download_commons_raster env t2 filename = (Inr (Some bytes), t3)"
      "to_png_128 env t3 bytes = (Inr (Some img), t4)"
      "tr' = t4 @ [Save (sanitize_filename brand @ py ''.png'') img]"
    by blast
  have "only_gets tr t3"
    using only_queries_gets[OF search_entity_queries[OF s(1)]]
      only_queries_gets[OF logo_queries[OF s(2)]] download_gets[OF s(3)]
    by (blast intro: only_gets_trans)
  then have "saved_files t3 = saved_files tr" by (rule only_gets_saved)
  with png_trace[OF s(4)] s(5)
  show "saved_files tr' = saved_files tr @ [sanitize_filename brand @ py ''.png'']"
    by (simp add: saved_files_append saved_files_def)
next
  assume "(\<forall>c\<in>set b1 \<union> set b2. \<not> SAFE_FILENAME_PATTERN c) \<and> strip b1 = b1 \<and> strip b2 = b2 \<and>
    b1 \<noteq> b2"
  then show "sanitize_filename b1 @ py ''.png'' \<noteq> sanitize_filename b2 @ py ''.png''"
    by (simp add: sanitize_safe)
qed

text \<open>In \<open>acme_world\<close> the brand \<open>Acme Corp\<close> is written to \<open>Acme Corp.png\<close>.\<close>
theorem output_file_per_brand_witness:
  "fst (process_brand acme_world [] (py ''Acme Corp'')) = (py ''Acme Corp'', True, py ''OK'') \<and>
   saved_files (snd (process_brand acme_world [] (py ''Acme Corp''))) = [py ''Acme Corp.png''] \<and>
   strip (py ''Acme'') = py ''Acme'' \<and> strip (py ''Bolt'') = py ''Bolt'' \<and>
   sanitize_filename (py ''Acme'') @ py ''.png'' \<noteq> sanitize_filename (py ''Bolt'') @ py ''.png''"
proof -
  have r: "fst (process_brand acme_world [] (py ''Acme Corp'')) = (py ''Acme Corp'', True, py ''OK'')"
    by (simp add: world_defs run_defs)
  then have p: "process_brand acme_world [] (py ''Acme Corp'')
      = ((py ''Acme Corp'', True, py ''OK''), snd (process_brand acme_world [] (py ''Acme Corp'')))"
    by (simp add: prod_eq_iff)
  have n: "sanitize_filename (py ''Acme Corp'') @ py ''.png'' = py ''Acme Corp.png''"
    by (simp add: text_defs)
  have safe: "(\<forall>c\<in>set (py ''Acme'') \<union> set (py ''Bolt''). \<not> SAFE_FILENAME_PATTERN c) \<and>
      strip (py ''Acme'') = py ''Acme'' \<and> strip (py ''Bolt'') = py ''Bolt'' \<and>
      py ''Acme'' \<noteq> py ''Bolt''"
    by (simp add: text_defs)
  from output_file_per_brand[of acme_world "[]" "py ''Acme Corp''" "py ''Acme Corp''" "py ''OK''"
      "snd (process_brand acme_world [] (py ''Acme Corp''))" "py ''Acme''" "py ''Bolt''"] p safe n
  have "saved_files (snd (process_brand acme_world [] (py ''Acme Corp''))) = [py ''Acme Corp.png''] \<and>
    sanitize_filename (py ''Acme'') @ py ''.png'' \<noteq> sanitize_filename (py ''Bolt'') @ py ''.png''"
    by (simp add: saved_files_def)
  with r safe show ?thesis by simp
qed

text \<open>
  Claim C8 as stated fails: the brands \<open>A/B\<close> and \<open>A:B\<close> are different, both are
  processed successfully in one run, and both are written to \<open>A_B.png\<close>.
\<close>
theorem output_file_collision:
  "fst (snd (main slash_world []))
     = [py ''[SUCCESS] A/B: OK'', py ''[SUCCESS] A:B: OK'', py ''Done. Success: 2, Fail: 0''] \<and>
   saved_files (snd (snd (main slash_world []))) = [py ''A_B.png'', py ''A_B.png''] \<and>
   py ''A/B'' \<noteq> py ''A:B''"
  by (simp add: world_defs run_defs main_def text_defs status_line_def summary_line_def)


text \<open>Runs of the four cases, in the sample worlds.\<close>
theorem process_brand_short_circuit_witness:
  "process_brand unknown_world [] (py ''Unknown Brand X'')
     = ((py ''Unknown Brand X'', False, py ''No Wikidata item found''),
        [Get (search_request (py ''Unknown Brand X'') (py ''tr'') 15),
         Get (search_request (py ''Unknown Brand X'') (py ''en'') 15)]) \<and>
   fst (process_brand no_logo_world [] (py ''Acme Corp''))
     = (py ''Acme Corp'', False, py ''No logo (P154) for Q1'') \<and>
   only_queries [] (snd (process_brand no_logo_world [] (py ''Acme Corp''))) \<and>
   fst (process_brand no_download_world [] (py ''Acme Corp''))
     = (py ''Acme Corp'', False, py ''Download failed'') \<and>
   opens (snd (process_brand no_download_world [] (py ''Acme Corp''))) = [] \<and>
   fst (process_brand bad_image_world [] (py ''Acme Corp''))
     = (py ''Acme Corp'', False, py ''Conversion failed'') \<and>
   saved_files (snd (process_brand bad_image_world [] (py ''Acme Corp''))) = []"
proof -
  let ?q = "JStr (py ''Q1'')" and ?f = "JStr (py ''Acme_logo.svg'')" and ?b = "py ''Acme Corp''"
  let ?s = "[Get (search_request ?b (py ''tr'') 15), Get (claims_request ?q)]"
  let ?s2 = "?s @ [Get (claims_request ?q)]"
  let ?th = "Get (media_request (COMMONS_THUMB (py ''Acme_logo.svg'') 1024))"
  let ?di = "Get (media_request (COMMONS_FILEPATH (py ''Acme_logo.svg'')))"
  have u: "wikidata_search_entity unknown_world [] (py ''Unknown Brand X'')
      = (Inr JNull, [Get (search_request (py ''Unknown Brand X'') (py ''tr'') 15),
         Get (search_request (py ''Unknown Brand X'') (py ''en'') 15)])"
    by (simp add: world_defs run_defs)
  from process_brand_short_circuit[where env = unknown_world and tr = "[]"
      and brand = "py ''Unknown Brand X''" and qid = JNull
      and ?t1.0 = "[Get (search_request (py ''Unknown Brand X'') (py ''tr'') 15),
         Get (search_request (py ''Unknown Brand X'') (py ''en'') 15)]"] u
  have c1: "process_brand unknown_world [] (py ''Unknown Brand X'')
     = ((py ''Unknown Brand X'', False, py ''No Wikidata item found''),
        [Get (search_request (py ''Unknown Brand X'') (py ''tr'') 15),
         Get (search_request (py ''Unknown Brand X'') (py ''en'') 15)])"
    by simp
  have n: "wikidata_search_entity no_logo_world [] ?b = (Inr ?q, ?s)"
    "wikidata_get_logo_filename no_logo_world ?s ?q = (Inr JNull, ?s2)"
    by (simp_all add: world_defs run_defs)
  from process_brand_short_circuit[where env = no_logo_world and tr = "[]" and brand = ?b
      and qid = ?q and ?t1.0 = ?s and filename = JNull and ?t2.0 = ?s2] n
  have c2: "process_brand no_logo_world [] ?b
      = ((?b, False, py ''No logo (P154) for '' @ py_str no_logo_world ?q), ?s2) \<and>
      only_queries [] ?s2"
    by (simp add: py_def)
  have d: "wikidata_search_entity no_download_world [] ?b = (Inr ?q, ?s)"
    "wikidata_get_logo_filename no_download_world ?s ?q = (Inr ?f, ?s2)"
    "download_commons_raster no_download_world ?s2 ?f = (Inr None, ?s2 @ [?th, ?di])"
    by (simp_all add: world_defs run_defs)
  from process_brand_short_circuit[where env = no_download_world and tr = "[]" and brand = ?b
      and qid = ?q and ?t1.0 = ?s and filename = ?f and ?t2.0 = ?s2 and img_bytes = None
      and ?t3.0 = "?s2 @ [?th, ?di]"] d
  have c3: "process_brand no_download_world [] ?b = ((?b, False, py ''Download failed''), ?s2 @ [?th, ?di]) \<and>
      opens (?s2 @ [?th, ?di]) = opens []"
    by (simp add: py_def)
  have i: "wikidata_search_entity bad_image_world [] ?b = (Inr ?q, ?s)"
    "wikidata_get_logo_filename bad_image_world ?s ?q = (Inr ?f, ?s2)"
    "download_commons_raster bad_image_world ?s2 ?f = (Inr (Some (py ''<html>'')), ?s2 @ [?th])"
    "to_png_128 bad_image_world (?s2 @ [?th]) (py ''<html>'')
       = (Inr None, ?s2 @ [?th] @ [Open (py ''<html>'')])"
    by (simp_all add: world_defs run_defs)
  from process_brand_short_circuit[where env = bad_image_world and tr = "[]" and brand = ?b
      and qid = ?q and ?t1.0 = ?s and filename = ?f and ?t2.0 = ?s2 and bytes = "py ''<html>''"
      and ?t3.0 = "?s2 @ [?th]" and ?t4.0 = "?s2 @ [?th] @ [Open (py ''<html>'')]"] i
  have c4: "process_brand bad_image_world [] ?b
      = ((?b, False, py ''Conversion failed''), ?s2 @ [?th] @ [Open (py ''<html>'')]) \<and>
      saved_files (?s2 @ [?th] @ [Open (py ''<html>'')]) = saved_files []"
    by (simp add: py_def)
  have m: "py ''No logo (P154) for '' @ py_str no_logo_world ?q = py ''No logo (P154) for Q1''"
    by (simp add: py_str_def py_def)
  from c1 c2 c3 c4 show ?thesis
    by (simp add: m opens_def saved_files_def)
qed

text \<open>Two runs: the search cannot connect; the logo is 1000 pixels wide and 1 pixel
  high, and the resize of the normalizer raises.\<close>
theorem process_brand_catches_witness:
  "process_brand unknown_world [] (py ''Acme Corp'')
     = ((py ''Acme Corp'', False, py ''Error: Failed to establish a new connection''),
        [Get (search_request (py ''Acme Corp'') (py ''tr'') 15)]) \<and>
   fst (process_brand (sized_world (1000, 1)) [] (py ''Acme Corp''))
     = (py ''Acme Corp'', False, py ''Error: height and width must be > 0'')"
proof -
  let ?q = "JStr (py ''Q1'')" and ?f = "JStr (py ''Acme_logo.svg'')" and ?b = "py ''Acme Corp''"
  let ?s = "[Get (search_request ?b (py ''tr'') 15), Get (claims_request ?q)]"
  let ?s2 = "?s @ [Get (claims_request ?q)]"
  let ?th = "Get (media_request (COMMONS_THUMB (py ''Acme_logo.svg'') 1024))"
  let ?e1 = "Exception (py ''Failed to establish a new connection'')"
  let ?e4 = "Exception (py ''height and width must be > 0'')"
  have u: "wikidata_search_entity unknown_world [] ?b
      = (Inl ?e1, [Get (search_request ?b (py ''tr'') 15)])"
    by (simp add: world_defs run_defs)
  from process_brand_catches[where env = unknown_world and tr = "[]" and brand = ?b and e = ?e1
      and ?t1.0 = "[Get (search_request ?b (py ''tr'') 15)]"] u
  have c1: "process_brand unknown_world [] ?b
      = ((?b, False, py ''Error: '' @ str_exn ?e1), [Get (search_request ?b (py ''tr'') 15)])"
    by simp
  have i: "wikidata_search_entity (sized_world (1000, 1)) [] ?b = (Inr ?q, ?s)"
    "wikidata_get_logo_filename (sized_world (1000, 1)) ?s ?q = (Inr ?f, ?s2)"
    "download_commons_raster (sized_world (1000, 1)) ?s2 ?f = (Inr (Some png_bytes), ?s2 @ [?th])"
    "to_png_128 (sized_world (1000, 1)) (?s2 @ [?th]) png_bytes
       = (Inl ?e4, ?s2 @ [?th] @ [Open png_bytes])"
    by (simp_all add: world_defs run_defs)
  from process_brand_catches[where env = "sized_world (1000, 1)" and tr = "[]" and brand = ?b
      and e = ?e4 and qid = ?q and ?t1.0 = ?s and filename = ?f and ?t2.0 = ?s2
      and bytes = png_bytes and ?t3.0 = "?s2 @ [?th]" and ?t4.0 = "?s2 @ [?th] @ [Open png_bytes]"] i
  have c4: "process_brand (sized_world (1000, 1)) [] ?b
      = ((?b, False, py ''Error: '' @ str_exn ?e4), ?s2 @ [?th] @ [Open png_bytes])"
    by (simp add: png_bytes_def py_def)
  from c1 c4 show ?thesis
    by (simp add: py_def)
qed

text \<open>The three cases, in the sample worlds.\<close>
theorem download_commons_raster_fallback_witness:
  "download_commons_raster acme_world [] (JStr (py ''Acme_logo.svg''))
     = (Inr (Some png_bytes), [Get (media_request (COMMONS_THUMB (py ''Acme_logo.svg'') 1024))]) \<and>
   download_commons_raster fallback_world [] (JStr (py ''Acme_logo.svg''))
     = (Inr (Some png_bytes),
        [Get (media_request (COMMONS_THUMB (py ''Acme_logo.svg'') 1024)),
         Get (media_request (COMMONS_FILEPATH (py ''Acme_logo.svg'')))]) \<and>
   download_commons_raster no_download_world [] (JStr (py ''Acme_logo.svg''))
     = (Inr None,
        [Get (media_request (COMMONS_THUMB (py ''Acme_logo.svg'') 1024)),
         Get (media_request (COMMONS_FILEPATH (py ''Acme_logo.svg'')))])"
proof -
  let ?n = "py ''Acme_logo.svg''"
  let ?th = "media_request (COMMONS_THUMB ?n 1024)" and ?di = "media_request (COMMONS_FILEPATH ?n)"
  have q: "url_quote acme_world ?n = Inr ?n" "url_quote fallback_world ?n = Inr ?n"
    "url_quote no_download_world ?n = Inr ?n"
    by (simp_all add: world_defs run_defs)
  have a: "session_get acme_world [] ?th = Inr (ok_bytes png_bytes)" "succeeds (Inr (ok_bytes png_bytes))"
    by (simp_all add: world_defs run_defs)
  have f: "\<not> succeeds (session_get fallback_world [] ?th)"
    "session_get fallback_world ([] @ [Get ?th]) ?di = Inr (ok_bytes png_bytes)"
    by (simp_all add: world_defs run_defs)
  have n: "\<not> succeeds (session_get no_download_world [] ?th)"
    "\<not> succeeds (session_get no_download_world ([] @ [Get ?th]) ?di)"
    by (simp_all add: world_defs run_defs)
  have c: "content (ok_bytes png_bytes) = png_bytes"
    by (simp add: ok_bytes_def)
  from download_commons_raster_fallback[of acme_world ?n ?n "[]" "ok_bytes png_bytes"] q a
  have c1: "download_commons_raster acme_world [] (JStr ?n) = (Inr (Some png_bytes), [Get ?th])"
    by (simp add: c)
  from download_commons_raster_fallback[of fallback_world ?n ?n "[]" "ok_bytes png_bytes"] q f a(2)
  have c2: "download_commons_raster fallback_world [] (JStr ?n)
      = (Inr (Some png_bytes), [Get ?th, Get ?di])"
    by (simp add: c)
  from download_commons_raster_fallback[of no_download_world ?n ?n "[]"] q n
  have c3: "download_commons_raster no_download_world [] (JStr ?n) = (Inr None, [Get ?th, Get ?di])"
    by simp
  from c1 c2 c3 show ?thesis by simp
qed

text \<open>One success (status 0), one failure (status 1), an empty brands file (status
  1).\<close>
theorem main_exit_status_witness:
  "fst (main acme_world []) = Inr 0 \<and> fst (main unknown_world []) = Inr 1 \<and>
   fst (main (sample_env [] (1, 1) []) []) = Inr 1"
proof -
  have a: "output_mkdir acme_world = Inr ()" "read_brands (open_brands acme_world) = Inr [py ''Acme Corp'']"
    "results acme_world [] [py ''Acme Corp''] = [(py ''Acme Corp'', True, py ''OK'')]"
    by (simp_all add: world_defs run_defs text_defs file_lines_def)
  have u: "output_mkdir unknown_world = Inr ()"
    "read_brands (open_brands unknown_world) = Inr [py ''Unknown Brand X'']"
    "results unknown_world [] [py ''Unknown Brand X'']
       = [(py ''Unknown Brand X'', False, py ''No Wikidata item found'')]"
    by (simp_all add: world_defs run_defs text_defs file_lines_def)
  have e: "output_mkdir (sample_env [] (1, 1) []) = Inr ()"
    "read_brands (open_brands (sample_env [] (1, 1) [])) = Inr []"
    by (simp_all add: run_defs text_defs file_lines_def)
  from main_exit_status[of acme_world "()" "[py ''Acme Corp'']" "[]"] a
  have c1: "fst (main acme_world []) = Inr 0" by (simp add: succeeded_def)
  from main_exit_status[of unknown_world "()" "[py ''Unknown Brand X'']" "[]"] u
  have c2: "fst (main unknown_world []) = Inr 1" by (simp add: succeeded_def)
  from main_exit_status[of "sample_env [] (1, 1) []" "()" "[]" "[]"] e
  have c3: "fst (main (sample_env [] (1, 1) []) []) = Inr 1" by simp
  from c1 c2 c3 show ?thesis by simp
qed

text \<open>The lines printed in two sample worlds.\<close>
theorem main_prints_every_brand_witness:
  "fst (snd (main acme_world [])) = [py ''[SUCCESS] Acme Corp: OK'', py ''Done. Success: 1, Fail: 0''] \<and>
   fst (snd (main unknown_world []))
     = [py ''[FAIL] Unknown Brand X: No Wikidata item found'', py ''Done. Success: 0, Fail: 1'']"
proof -
  have a: "output_mkdir acme_world = Inr ()" "read_brands (open_brands acme_world) = Inr [py ''Acme Corp'']"
    "results acme_world [] [py ''Acme Corp''] = [(py ''Acme Corp'', True, py ''OK'')]"
    by (simp_all add: world_defs run_defs text_defs file_lines_def)
  have u: "output_mkdir unknown_world = Inr ()"
    "read_brands (open_brands unknown_world) = Inr [py ''Unknown Brand X'']"
    "results unknown_world [] [py ''Unknown Brand X'']
       = [(py ''Unknown Brand X'', False, py ''No Wikidata item found'')]"
    by (simp_all add: world_defs run_defs text_defs file_lines_def)
  from main_prints_every_brand[of acme_world "()" "[py ''Acme Corp'']" "[]"] a
  have c1: "fst (snd (main acme_world []))
      = [py ''[SUCCESS] Acme Corp: OK'', py ''Done. Success: 1, Fail: 0'']"
    by (simp add: succeeded_def status_line_def summary_line_def str_nat.simps py_def)
  from main_prints_every_brand[of unknown_world "()" "[py ''Unknown Brand X'']" "[]"] u
  have c2: "fst (snd (main unknown_world []))
      = [py ''[FAIL] Unknown Brand X: No Wikidata item found'', py ''Done. Success: 0, Fail: 1'']"
    by (simp add: succeeded_def status_line_def summary_line_def str_nat.simps py_def)
  from c1 c2 show ?thesis by simp
qed

subsection \<open>The arithmetic of the scaled size\<close>

































subsection \<open>The normalizer\<close>















end
